theory Spec2Isabelle
  imports Complex_Main "HOL-Library.Log_Nat"
begin

section \<open>Python strings\<close>

text \<open>
  A Python \<open>str\<close> is a sequence of code points. The model is \<^typ>\<open>string\<close>, each
  \<^typ>\<open>char\<close> read as one code point below 256 (the Latin-1 range, which holds all of
  ASCII). \<open>str.lower\<close> and \<open>str.strip\<close> are written out for this range as Python
  defines them: the upper-case letters are \<open>A-Z\<close> and the code points 0xC0-0xDE except
  0xD7, each 32 below its lower-case letter; the characters for which \<open>str.isspace\<close>
  holds are 0x09-0x0D, 0x1C-0x20, 0x85 and 0xA0.
\<close>

definition lower_char :: "char \<Rightarrow> char" where
  "lower_char c =
     (let n = (of_char c :: nat)
      in if (65 \<le> n \<and> n \<le> 90) \<or> (192 \<le> n \<and> n \<le> 222 \<and> n \<noteq> 215)
         then char_of (n + 32) else c)"

definition lower :: "string \<Rightarrow> string" where
  "lower s = map lower_char s"

definition isspace :: "char \<Rightarrow> bool" where
  "isspace c =
     (let n = (of_char c :: nat)
      in (9 \<le> n \<and> n \<le> 13) \<or> (28 \<le> n \<and> n \<le> 32) \<or> n = 133 \<or> n = 160)"

definition strip :: "string \<Rightarrow> string" where
  "strip s = rev (dropWhile isspace (rev (dropWhile isspace s)))"

text \<open>What an f-string prints for a value that is a string or \<open>None\<close>.\<close>

fun format_opt :: "string option \<Rightarrow> string" where
  "format_opt None = ''None''"
| "format_opt (Some s) = s"

section \<open>Dictionaries and exceptions\<close>

text \<open>
  The dictionaries of the source are literals; they are association lists in the order of
  the literal, so that \<open>list(d.keys())\<close> is the list of first components. Indexing
  \<open>d[k]\<close> raises \<open>KeyError\<close> on a missing key and float division raises
  \<open>ZeroDivisionError\<close> on a zero divisor: every function of the model returns
  \<open>py_error + result\<close>, with \<open>Inl\<close> for a raised exception.
\<close>

datatype py_error = KeyError | ZeroDivisionError

definition keys :: "('k \<times> 'v) list \<Rightarrow> 'k list" where
  "keys d = map fst d"

definition getitem :: "('k \<times> 'v) list \<Rightarrow> 'k \<Rightarrow> py_error + 'v" where
  "getitem d k = (case map_of d k of None \<Rightarrow> Inl KeyError | Some v \<Rightarrow> Inr v)"

text \<open>The value of a parameter with a default: \<open>None\<close> is the omitted argument.\<close>

fun arg_or_default :: "'a option \<Rightarrow> 'a \<Rightarrow> 'a" where
  "arg_or_default None d = d"
| "arg_or_default (Some x) d = x"

section \<open>Regular expressions as \<open>re.match\<close> runs them\<close>

text \<open>
  The three patterns of \<open>validate_wallet_address\<close> use the anchors \<open>^\<close> and \<open>$\<close>,
  literal characters, character classes made of ranges, alternation, sequence and bounded
  repetition \<open>{m,n}\<close>. The matcher below is a backtracking matcher over the rest of the
  subject string: it returns every state a match of the pattern can end in, the preferred
  (greedy) one first. A state is the pair of a flag (still at the start of the subject)
  and the rest of the subject. Without the MULTILINE flag, \<open>^\<close> matches at the start of the
  subject only, and \<open>$\<close> matches at the end of the subject and also just before a newline
  that is the last character of the subject.
\<close>

datatype regex =
    Bol
  | Eol
  | Chr char
  | Cls "(char \<times> char) list"
  | Seq regex regex
  | Alt regex regex
  | Rep regex nat nat

type_synonym mstate = "bool \<times> string"

definition in_class :: "(char \<times> char) list \<Rightarrow> char \<Rightarrow> bool" where
  "in_class rs c =
     (\<exists>r \<in> set rs. (of_char (fst r) :: nat) \<le> of_char c \<and> (of_char c :: nat) \<le> of_char (snd r))"

primrec rep :: "(mstate \<Rightarrow> mstate list) \<Rightarrow> nat \<Rightarrow> nat \<Rightarrow> mstate \<Rightarrow> mstate list" where
  "rep f lo 0 st = (if lo = 0 then [st] else [])"
| "rep f lo (Suc hi) st =
     concat (map (rep f (lo - 1) hi) (f st)) @ (if lo = 0 then [st] else [])"

primrec ms :: "regex \<Rightarrow> mstate \<Rightarrow> mstate list" where
  "ms Bol st = (if fst st then [st] else [])"
| "ms Eol st = (if snd st = [] \<or> snd st = [CHR 0x0A] then [st] else [])"
| "ms (Chr c) st =
     (case snd st of [] \<Rightarrow> [] | x # xs \<Rightarrow> if x = c then [(False, xs)] else [])"
| "ms (Cls rs) st =
     (case snd st of [] \<Rightarrow> [] | x # xs \<Rightarrow> if in_class rs x then [(False, xs)] else [])"
| "ms (Seq a b) st = concat (map (ms b) (ms a st))"
| "ms (Alt a b) st = ms a st @ ms b st"
| "ms (Rep a lo hi) st = rep (ms a) lo hi st"

text \<open>\<open>bool(re.match(pattern, subject))\<close>: some match starts at the start of the subject.\<close>

definition re_match :: "regex \<Rightarrow> string \<Rightarrow> bool" where
  "re_match p s = (ms p (True, s) \<noteq> [])"

fun seqs :: "regex list \<Rightarrow> regex" where
  "seqs [r] = r"
| "seqs (r # rs) = Seq r (seqs rs)"
| "seqs [] = Rep Bol 0 0"

definition lit :: "string \<Rightarrow> regex" where
  "lit s = seqs (map Chr s)"

section \<open>Python floats\<close>

text \<open>
  A Python \<open>float\<close> is an IEEE 754 binary64 number. The model keeps the value: a finite
  float is the rational number it stands for (the two zeros, which compare equal, are one
  value), and there are the two infinities and NaN. Multiplication and division compute
  the exact rational result and round it to the nearest binary64 number, ties to the even
  significand: 53 significant bits, spacing \<open>2 ^ -1074\<close> below \<open>2 ^ -1022\<close>, and infinity
  when the rounded magnitude reaches \<open>2 ^ 1024\<close>. Python raises \<open>ZeroDivisionError\<close> for
  a float division by zero.
\<close>

datatype f64 = Fin rat | PInf | NInf | NaN

text \<open>For \<open>q > 0\<close>, the integer \<open>e\<close> with \<open>2 ^ e \<le> q < 2 ^ (e + 1)\<close>.\<close>

definition ilog2 :: "rat \<Rightarrow> int" where
  "ilog2 q = (if 1 \<le> q then bitlen \<lfloor>q\<rfloor> - 1 else - bitlen (\<lceil>1 / q\<rceil> - 1))"

definition round_half_even :: "rat \<Rightarrow> int" where
  "round_half_even x =
     (let n = \<lfloor>x\<rfloor>; f = x - of_int n
      in if f < 1 / 2 then n else if 1 / 2 < f then n + 1
         else if even n then n else n + 1)"

definition round64 :: "rat \<Rightarrow> f64" where
  "round64 q =
     (if q = 0 then Fin 0
      else let e = max (ilog2 \<bar>q\<bar> - 52) (- 1074);
               r = of_int (round_half_even (q / 2 powi e)) * 2 powi e
           in if 2 ^ 1024 \<le> \<bar>r\<bar> then (if 0 < q then PInf else NInf) else Fin r)"

fun fmul :: "f64 \<Rightarrow> f64 \<Rightarrow> f64" where
  "fmul (Fin a) (Fin b) = round64 (a * b)"
| "fmul (Fin a) PInf = (if a = 0 then NaN else if 0 < a then PInf else NInf)"
| "fmul (Fin a) NInf = (if a = 0 then NaN else if 0 < a then NInf else PInf)"
| "fmul PInf (Fin b) = (if b = 0 then NaN else if 0 < b then PInf else NInf)"
| "fmul NInf (Fin b) = (if b = 0 then NaN else if 0 < b then NInf else PInf)"
| "fmul PInf PInf = PInf"
| "fmul PInf NInf = NInf"
| "fmul NInf PInf = NInf"
| "fmul NInf NInf = PInf"
| "fmul NaN _ = NaN"
| "fmul _ NaN = NaN"

fun fdiv :: "f64 \<Rightarrow> f64 \<Rightarrow> py_error + f64" where
  "fdiv x (Fin b) =
     (if b = 0 then Inl ZeroDivisionError
      else case x of
             Fin a \<Rightarrow> Inr (round64 (a / b))
           | PInf \<Rightarrow> Inr (if 0 < b then PInf else NInf)
           | NInf \<Rightarrow> Inr (if 0 < b then NInf else PInf)
           | NaN \<Rightarrow> Inr NaN)"
| "fdiv (Fin a) PInf = Inr (Fin 0)"
| "fdiv (Fin a) NInf = Inr (Fin 0)"
| "fdiv x y = Inr NaN"

section \<open>Results\<close>

text \<open>
  Every tool returns a dictionary whose \<open>"status"\<close> is \<open>"success"\<close>, \<open>"not_found"\<close> or
  \<open>"error"\<close>. \<open>Success\<close> carries the other entries of a success dictionary;
  \<open>NotFound\<close> carries the message and the list of known keys; \<open>Error\<close> carries the
  message and, where the dictionary has one, the list of valid options.
\<close>

datatype 'a envelope =
    Success 'a
  | NotFound string "string list"
  | Error string "string list option"

fun status :: "'a envelope \<Rightarrow> string" where
  "status (Success _) = ''success''"
| "status (NotFound _ _) = ''not_found''"
| "status (Error _ _) = ''error''"

record chain_record =
  cr_name :: string
  cr_symbol :: string
  cr_consensus :: string
  cr_avg_block_time :: string
  cr_smart_contracts :: bool
  cr_launched :: string
  cr_founder :: string
  cr_website :: string
  cr_description :: string

record gas_profile =
  gp_fee_name :: string
  gp_unit :: string
  gp_components :: "string list"
  gp_explanation :: string
  gp_typical_costs :: "(string \<times> string) list"

record contract_template =
  ct_name :: string
  ct_description :: string
  ct_code :: string
  ct_explanation :: "string option"

record validation =
  vd_pattern :: regex
  vd_description :: string

record validation_result =
  vr_address :: string
  vr_chain :: string
  vr_is_valid :: bool
  vr_format_description :: string
  vr_message :: string

record gas_result =
  gr_chain :: string
  gr_gas_info :: gas_profile

record conversion_result =
  cv_input :: "f64 \<times> string"
  cv_output :: "f64 \<times> string"
  cv_blockchain :: "string option"

section \<open>The tools of \<open>app.py\<close>\<close>

subsection \<open>\<open>get_blockchain_info\<close>\<close>

definition blockchain_data :: "(string \<times> chain_record) list" where
  \<open>blockchain_data =
   [(''ethereum'',
     \<lparr>cr_name = ''Ethereum'', cr_symbol = ''ETH'',
      cr_consensus = ''Proof of Stake (PoS)'',
      cr_avg_block_time = ''~12 seconds'', cr_smart_contracts = True,
      cr_launched = ''2015'', cr_founder = ''Vitalik Buterin'',
      cr_website = ''https://ethereum.org'',
      cr_description = ''A decentralized platform for building dApps and smart contracts.''\<rparr>),
    (''bitcoin'',
     \<lparr>cr_name = ''Bitcoin'', cr_symbol = ''BTC'',
      cr_consensus = ''Proof of Work (PoW)'',
      cr_avg_block_time = ''~10 minutes'', cr_smart_contracts = False,
      cr_launched = ''2009'', cr_founder = ''Satoshi Nakamoto'',
      cr_website = ''https://bitcoin.org'',
      cr_description = ''The first and most well-known cryptocurrency.''\<rparr>),
    (''solana'',
     \<lparr>cr_name = ''Solana'', cr_symbol = ''SOL'',
      cr_consensus = ''Proof of History (PoH) + Proof of Stake'',
      cr_avg_block_time = ''~400 milliseconds'', cr_smart_contracts = True,
      cr_launched = ''2020'', cr_founder = ''Anatoly Yakovenko'',
      cr_website = ''https://solana.com'',
      cr_description = ''A high-performance blockchain with fast transactions and low fees.''\<rparr>),
    (''polygon'',
     \<lparr>cr_name = ''Polygon'', cr_symbol = ''MATIC'',
      cr_consensus = ''Proof of Stake (PoS)'',
      cr_avg_block_time = ''~2 seconds'', cr_smart_contracts = True,
      cr_launched = ''2017'', cr_founder = ''Jaynti Kanani, Sandeep Nailwal, Anurag Arjun'',
      cr_website = ''https://polygon.technology'',
      cr_description = ''An Ethereum Layer 2 scaling solution.''\<rparr>),
    (''avalanche'',
     \<lparr>cr_name = ''Avalanche'', cr_symbol = ''AVAX'',
      cr_consensus = ''Avalanche Consensus (PoS variant)'',
      cr_avg_block_time = ''~2 seconds'', cr_smart_contracts = True,
      cr_launched = ''2020'', cr_founder = (''Emin G'' @ [CHR 0xC3] @ [CHR 0xBC] @ ''n Sirer''),
      cr_website = ''https://www.avax.network'',
      cr_description = ''A highly scalable blockchain platform for dApps.''\<rparr>),
    (''cardano'',
     \<lparr>cr_name = ''Cardano'', cr_symbol = ''ADA'',
      cr_consensus = ''Ouroboros Proof of Stake'',
      cr_avg_block_time = ''~20 seconds'', cr_smart_contracts = True,
      cr_launched = ''2017'', cr_founder = ''Charles Hoskinson'',
      cr_website = ''https://cardano.org'',
      cr_description = ''A research-driven blockchain focused on security.''\<rparr>)]\<close>

definition get_blockchain_info :: "string \<Rightarrow> py_error + chain_record envelope" where
  \<open>get_blockchain_info chain_name =
     (let chain_key = strip (lower chain_name)
      in if chain_key \<in> set (keys blockchain_data)
         then (case getitem blockchain_data chain_key of
                 Inl e \<Rightarrow> Inl e
               | Inr r \<Rightarrow> Inr (Success r))
         else Inr (NotFound (''Blockchain '' @ [CHR 0x27] @ chain_name @ [CHR 0x27] @ '' not found.'')
                     (keys blockchain_data)))\<close>

subsection \<open>\<open>validate_wallet_address\<close>\<close>

text \<open>
  The patterns are \<^verbatim>\<open>^0x[a-fA-F0-9]{40}$\<close>, \<^verbatim>\<open>^(1|3|bc1)[a-zA-HJ-NP-Z0-9]{25,62}$\<close> and
  \<^verbatim>\<open>^[1-9A-HJ-NP-Za-km-z]{32,44}$\<close>.
\<close>

definition eth_pattern :: regex where
  "eth_pattern =
     seqs [Bol, lit ''0x'',
           Rep (Cls [(CHR ''a'', CHR ''f''), (CHR ''A'', CHR ''F''), (CHR ''0'', CHR ''9'')]) 40 40,
           Eol]"

definition btc_pattern :: regex where
  "btc_pattern =
     seqs [Bol, Alt (lit ''1'') (Alt (lit ''3'') (lit ''bc1'')),
           Rep (Cls [(CHR ''a'', CHR ''z''), (CHR ''A'', CHR ''H''), (CHR ''J'', CHR ''N''),
                     (CHR ''P'', CHR ''Z''), (CHR ''0'', CHR ''9'')]) 25 62,
           Eol]"

definition sol_pattern :: regex where
  "sol_pattern =
     seqs [Bol,
           Rep (Cls [(CHR ''1'', CHR ''9''), (CHR ''A'', CHR ''H''), (CHR ''J'', CHR ''N''),
                     (CHR ''P'', CHR ''Z''), (CHR ''a'', CHR ''k''), (CHR ''m'', CHR ''z'')]) 32 44,
           Eol]"

definition validations :: "(string \<times> validation) list" where
  \<open>validations =
   [(''ethereum'',
     \<lparr>vd_pattern = eth_pattern,
      vd_description =
        ''Ethereum addresses start with '' @ [CHR 0x27] @ ''0x'' @ [CHR 0x27] @
        '' followed by 40 hex characters''\<rparr>),
    (''bitcoin'',
     \<lparr>vd_pattern = btc_pattern,
      vd_description =
        ''Bitcoin addresses start with '' @ [CHR 0x27] @ ''1'' @ [CHR 0x27] @ '', '' @
        [CHR 0x27] @ ''3'' @ [CHR 0x27] @ '', or '' @ [CHR 0x27] @ ''bc1'' @ [CHR 0x27]\<rparr>),
    (''solana'',
     \<lparr>vd_pattern = sol_pattern,
      vd_description = ''Solana addresses are base58 encoded, 32-44 characters''\<rparr>)]\<close>

definition validate_wallet_address ::
    "string \<Rightarrow> string option \<Rightarrow> py_error + validation_result envelope" where
  "validate_wallet_address address chain_arg =
     (let chain = arg_or_default chain_arg ''ethereum'';
          chain_lower = lower chain
      in if chain_lower \<notin> set (keys validations)
         then Inr (Error (''Validation not supported for chain: '' @ chain)
                     (Some (keys validations)))
         else (case getitem validations chain_lower of
                 Inl e \<Rightarrow> Inl e
               | Inr v \<Rightarrow>
                   (let is_valid = re_match (vd_pattern v) address
                    in case getitem validations chain_lower of
                         Inl e \<Rightarrow> Inl e
                       | Inr v' \<Rightarrow>
                           Inr (Success
                             \<lparr>vr_address = address, vr_chain = chain, vr_is_valid = is_valid,
                              vr_format_description = vd_description v',
                              vr_message = (if is_valid then ''Address format is valid!''
                                            else ''Invalid address format.'')\<rparr>))))"

subsection \<open>\<open>explain_gas_fees\<close>\<close>

definition gas_info :: "(string \<times> gas_profile) list" where
  \<open>gas_info =
   [(''ethereum'',
     \<lparr>gp_fee_name = ''Gas'',
      gp_unit = ''Gwei (1 Gwei = 0.000000001 ETH)'',
      gp_components = [''Base Fee'', ''Priority Fee (Tip)''],
      gp_explanation =
       ''Ethereum gas fees consist of Base Fee (burned) and Priority Fee (tip to validators).'',
      gp_typical_costs =
       [(''simple_transfer'', ''21,000 gas units''),
        (''token_transfer'', ''~65,000 gas units''),
        (''swap'', ''~150,000 gas units'')]\<rparr>),
    (''solana'',
     \<lparr>gp_fee_name = ''Transaction Fee'',
      gp_unit = ''Lamports (1 SOL = 1B Lamports)'',
      gp_components = [''Base Fee'', ''Priority Fee''],
      gp_explanation =
       ''Solana has extremely low fees, typically a fraction of a cent.'',
      gp_typical_costs =
       [(''simple_transfer'', ''~0.000005 SOL''),
        (''token_transfer'', ''~0.00001 SOL'')]\<rparr>),
    (''polygon'',
     \<lparr>gp_fee_name = ''Gas (MATIC)'',
      gp_unit = ''Gwei (paid in MATIC)'',
      gp_components = [''Base Fee'', ''Priority Fee''],
      gp_explanation =
       ''Polygon uses a similar gas model to Ethereum but much cheaper.'',
      gp_typical_costs =
       [(''simple_transfer'', ''~$0.001-0.01''),
        (''swap'', ''~$0.05-0.20'')]\<rparr>)]\<close>

definition explain_gas_fees :: "string option \<Rightarrow> py_error + gas_result envelope" where
  "explain_gas_fees chain_arg =
     (let chain = arg_or_default chain_arg ''ethereum'';
          chain_lower = lower chain
      in if chain_lower \<in> set (keys gas_info)
         then (case getitem gas_info chain_lower of
                 Inl e \<Rightarrow> Inl e
               | Inr g \<Rightarrow> Inr (Success \<lparr>gr_chain = chain, gr_gas_info = g\<rparr>))
         else Inr (NotFound (''Gas info not available for '' @ chain) (keys gas_info)))"

subsection \<open>\<open>get_smart_contract_template\<close>\<close>

definition templates :: "(string \<times> contract_template) list" where
  \<open>templates =
   [(''erc20'',
     \<lparr>ct_name = ''ERC-20 Token'',
      ct_description = ''Standard fungible token contract'',
      ct_code =
       (''// SPDX-License-Identifier: MIT\<newline>'' @
        ''pragma solidity ^0.8.19;\<newline>'' @
        ''\<newline>'' @
        ''import "@openzeppelin/contracts/token/ERC20/ERC20.sol";\<newline>'' @
        ''import "@openzeppelin/contracts/access/Ownable.sol";\<newline>'' @
        ''\<newline>'' @
        ''contract MyToken is ERC20, Ownable {\<newline>'' @
        ''    constructor(string memory name, string memory symbol, uint256 initialSupply)\<newline>'' @
        ''        ERC20(name, symbol) Ownable(msg.sender) {\<newline>'' @
        ''        _mint(msg.sender, initialSupply * 10 ** decimals());\<newline>'' @
        ''    }\<newline>'' @
        ''\<newline>'' @
        ''    function mint(address to, uint256 amount) public onlyOwner {\<newline>'' @
        ''        _mint(to, amount);\<newline>'' @
        ''    }\<newline>'' @
        ''}''),
      ct_explanation = None\<rparr>),
    (''erc721'',
     \<lparr>ct_name = ''ERC-721 NFT'',
      ct_description = ''Standard NFT contract'',
      ct_code =
       (''// SPDX-License-Identifier: MIT\<newline>'' @
        ''pragma solidity ^0.8.19;\<newline>'' @
        ''\<newline>'' @
        ''import "@openzeppelin/contracts/token/ERC721/ERC721.sol";\<newline>'' @
        ''import "@openzeppelin/contracts/token/ERC721/extensions/ERC721URIStorage.sol";\<newline>'' @
        ''import "@openzeppelin/contracts/access/Ownable.sol";\<newline>'' @
        ''\<newline>'' @
        ''contract MyNFT is ERC721, ERC721URIStorage, Ownable {\<newline>'' @
        ''    uint256 private _tokenIdCounter;\<newline>'' @
        ''\<newline>'' @
        ''    constructor() ERC721("MyNFT", "MNFT") Ownable(msg.sender) {}\<newline>'' @
        ''\<newline>'' @
        ''    function safeMint(address to, string memory uri) public onlyOwner {\<newline>'' @
        ''        uint256 tokenId = _tokenIdCounter++;\<newline>'' @
        ''        _safeMint(to, tokenId);\<newline>'' @
        ''        _setTokenURI(tokenId, uri);\<newline>'' @
        ''    }\<newline>'' @
        ''\<newline>'' @
        ''    function tokenURI(uint256 tokenId) public view override(ERC721, ERC721URIStorage)\<newline>'' @
        ''        returns (string memory) { return super.tokenURI(tokenId); }\<newline>'' @
        ''\<newline>'' @
        ''    function supportsInterface(bytes4 interfaceId) public view override(ERC721, ERC721URIStorage)\<newline>'' @
        ''        returns (bool) { return super.supportsInterface(interfaceId); }\<newline>'' @
        ''}''),
      ct_explanation = None\<rparr>),
    (''simple_storage'',
     \<lparr>ct_name = ''Simple Storage'',
      ct_description = ''Basic learning contract'',
      ct_code =
       (''// SPDX-License-Identifier: MIT\<newline>'' @
        ''pragma solidity ^0.8.19;\<newline>'' @
        ''\<newline>'' @
        ''contract SimpleStorage {\<newline>'' @
        ''    uint256 private storedValue;\<newline>'' @
        ''    event ValueChanged(uint256 newValue, address changedBy);\<newline>'' @
        ''\<newline>'' @
        ''    function set(uint256 value) public {\<newline>'' @
        ''        storedValue = value;\<newline>'' @
        ''        emit ValueChanged(value, msg.sender);\<newline>'' @
        ''    }\<newline>'' @
        ''\<newline>'' @
        ''    function get() public view returns (uint256) { return storedValue; }\<newline>'' @
        ''}''),
      ct_explanation = None\<rparr>)]\<close>

definition get_smart_contract_template ::
    "string \<Rightarrow> py_error + contract_template envelope" where
  \<open>get_smart_contract_template contract_type =
     (let contract_key = strip (lower contract_type)
      in if contract_key \<in> set (keys templates)
         then (case getitem templates contract_key of
                 Inl e \<Rightarrow> Inl e
               | Inr t \<Rightarrow> Inr (Success t))
         else Inr (NotFound (''Template '' @ [CHR 0x27] @ contract_type @ [CHR 0x27] @ '' not found.'')
                     (keys templates)))\<close>

subsection \<open>\<open>convert_crypto_units\<close>\<close>

text \<open>
  The factors \<open>1\<close>, \<open>1e8\<close>, \<open>1e9\<close> and \<open>1e18\<close> are binary64 numbers exactly; the integer
  \<open>1\<close> of the table becomes the float \<open>1.0\<close> when it meets the float amount.
\<close>

definition conversions :: "(string \<times> f64) list" where
  "conversions =
   [(''wei'', Fin 1), (''gwei'', Fin (10 ^ 9)), (''eth'', Fin (10 ^ 18)), (''ether'', Fin (10 ^ 18)),
    (''satoshi'', Fin 1), (''sat'', Fin 1), (''btc'', Fin (10 ^ 8)), (''bitcoin'', Fin (10 ^ 8)),
    (''lamport'', Fin 1), (''lamports'', Fin 1), (''sol'', Fin (10 ^ 9)), (''solana'', Fin (10 ^ 9))]"

definition eth_units :: "string list" where
  "eth_units = [''wei'', ''gwei'', ''eth'', ''ether'']"

definition btc_units :: "string list" where
  "btc_units = [''satoshi'', ''sat'', ''btc'', ''bitcoin'']"

definition sol_units :: "string list" where
  "sol_units = [''lamport'', ''lamports'', ''sol'', ''solana'']"

definition get_chain :: "string \<Rightarrow> string option" where
  "get_chain unit =
     (if unit \<in> set eth_units then Some ''ethereum''
      else if unit \<in> set btc_units then Some ''bitcoin''
      else if unit \<in> set sol_units then Some ''solana''
      else None)"

definition convert_crypto_units ::
    "f64 \<Rightarrow> string \<Rightarrow> string \<Rightarrow> py_error + conversion_result envelope" where
  "convert_crypto_units amount from_unit to_unit =
     (let from_lower = lower from_unit; to_lower = lower to_unit
      in if from_lower \<notin> set (keys conversions) \<or> to_lower \<notin> set (keys conversions)
         then Inr (Error ''Invalid unit'' (Some (keys conversions)))
         else
           (let from_chain = get_chain from_lower; to_chain = get_chain to_lower
            in if from_chain \<noteq> to_chain
               then Inr (Error (''Cannot convert between '' @ format_opt from_chain @ '' and ''
                                  @ format_opt to_chain) None)
               else (case getitem conversions from_lower of
                       Inl e \<Rightarrow> Inl e
                     | Inr f \<Rightarrow>
                         (case getitem conversions to_lower of
                            Inl e \<Rightarrow> Inl e
                          | Inr t \<Rightarrow>
                              (case fdiv (fmul amount f) t of
                                 Inl e \<Rightarrow> Inl e
                               | Inr result \<Rightarrow>
                                   Inr (Success
                                     \<lparr>cv_input = (amount, from_unit),
                                      cv_output = (result, to_unit),
                                      cv_blockchain = from_chain\<rparr>))))))"

section \<open>Address formats\<close>

text \<open>
  The formats the validator is meant to recognise, stated on the address itself and
  without the matcher: a body of between \<open>lo\<close> and \<open>hi\<close> characters of one alphabet,
  after a fixed prefix. \<open>is_hex\<close> is the hexadecimal digits, \<open>base58_char\<close> the base58
  alphabet (the digits without \<open>0\<close>, the upper-case letters without \<open>I\<close> and \<open>O\<close>, the
  lower-case letters without \<open>l\<close>), and \<open>btc_char\<close> the alphabet of the Bitcoin pattern
  (all lower-case letters, the upper-case letters without \<open>I\<close> and \<open>O\<close>, all digits).
\<close>

definition is_hex :: "char \<Rightarrow> bool" where
  "is_hex c \<longleftrightarrow> c \<in> set ''0123456789abcdefABCDEF''"

definition base58_char :: "char \<Rightarrow> bool" where
  "base58_char c \<longleftrightarrow> c \<in> set ''123456789ABCDEFGHJKLMNPQRSTUVWXYZabcdefghijkmnopqrstuvwxyz''"

definition btc_char :: "char \<Rightarrow> bool" where
  "btc_char c \<longleftrightarrow> c \<in> set ''abcdefghijklmnopqrstuvwxyzABCDEFGHJKLMNPQRSTUVWXYZ0123456789''"

definition body_ok :: "(char \<Rightarrow> bool) \<Rightarrow> nat \<Rightarrow> nat \<Rightarrow> string \<Rightarrow> bool" where
  "body_ok P lo hi t \<longleftrightarrow> lo \<le> length t \<and> length t \<le> hi \<and> list_all P t"

definition eth_format :: "string \<Rightarrow> bool" where
  "eth_format s \<longleftrightarrow> take 2 s = ''0x'' \<and> body_ok is_hex 40 40 (drop 2 s)"

definition btc_format :: "string \<Rightarrow> bool" where
  "btc_format s \<longleftrightarrow>
     (take 1 s = ''1'' \<and> body_ok btc_char 25 62 (drop 1 s)) \<or>
     (take 1 s = ''3'' \<and> body_ok btc_char 25 62 (drop 1 s)) \<or>
     (take 3 s = ''bc1'' \<and> body_ok btc_char 25 62 (drop 3 s))"

definition sol_format :: "string \<Rightarrow> bool" where
  "sol_format s \<longleftrightarrow> body_ok base58_char 32 44 s"

text \<open>
  The Bitcoin format as the specification words it: the body is letters and digits
  without the four characters the base58 convention leaves out as visually ambiguous
  (\<open>0\<close>, \<open>O\<close>, \<open>I\<close>, \<open>l\<close>), that is, the base58 alphabet.
\<close>

definition claimed_btc_format :: "string \<Rightarrow> bool" where
  "claimed_btc_format s \<longleftrightarrow>
     (take 1 s = ''1'' \<and> body_ok base58_char 25 62 (drop 1 s)) \<or>
     (take 1 s = ''3'' \<and> body_ok base58_char 25 62 (drop 1 s)) \<or>
     (take 3 s = ''bc1'' \<and> body_ok base58_char 25 62 (drop 3 s))"

text \<open>
  The \<open>"is_valid"\<close> entry of the dictionary \<open>validate_wallet_address\<close> returns, when it
  returns a success dictionary.
\<close>

definition is_valid :: "string \<Rightarrow> string \<Rightarrow> bool option" where
  "is_valid address chain =
     (case validate_wallet_address address (Some chain) of
        Inr (Success r) \<Rightarrow> Some (vr_is_valid r)
      | _ \<Rightarrow> None)"

text \<open>Where \<open>$\<close> matches: at the end of the subject, or before its final newline.\<close>

definition at_end :: "string \<Rightarrow> bool" where
  "at_end t \<longleftrightarrow> t = [] \<or> t = [CHR 0x0A]"

section \<open>The tools of \<open>blockchain_assistant/agent.py\<close>\<close>

text \<open>
  The second file defines the same five functions over tables of its own. The three
  patterns, the three unit lists and \<open>get_chain\<close> are the same text in both files and
  are shared here; the tables and the messages are written out again.
\<close>

definition agent_blockchain_data :: "(string \<times> chain_record) list" where
  \<open>agent_blockchain_data =
   [(''ethereum'',
     \<lparr>cr_name = ''Ethereum'', cr_symbol = ''ETH'',
      cr_consensus = ''Proof of Stake (PoS)'',
      cr_avg_block_time = ''~12 seconds'', cr_smart_contracts = True,
      cr_launched = ''2015'', cr_founder = ''Vitalik Buterin'',
      cr_website = ''https://ethereum.org'',
      cr_description = ''A decentralized platform for building dApps and smart contracts.''\<rparr>),
    (''bitcoin'',
     \<lparr>cr_name = ''Bitcoin'', cr_symbol = ''BTC'',
      cr_consensus = ''Proof of Work (PoW)'',
      cr_avg_block_time = ''~10 minutes'', cr_smart_contracts = False,
      cr_launched = ''2009'', cr_founder = ''Satoshi Nakamoto'',
      cr_website = ''https://bitcoin.org'',
      cr_description = ''The first and most well-known cryptocurrency, designed as a peer-to-peer electronic cash system.''\<rparr>),
    (''solana'',
     \<lparr>cr_name = ''Solana'', cr_symbol = ''SOL'',
      cr_consensus = ''Proof of History (PoH) + Proof of Stake'',
      cr_avg_block_time = ''~400 milliseconds'', cr_smart_contracts = True,
      cr_launched = ''2020'', cr_founder = ''Anatoly Yakovenko'',
      cr_website = ''https://solana.com'',
      cr_description = ''A high-performance blockchain supporting fast transactions and low fees.''\<rparr>),
    (''polygon'',
     \<lparr>cr_name = ''Polygon'', cr_symbol = ''MATIC'',
      cr_consensus = ''Proof of Stake (PoS)'',
      cr_avg_block_time = ''~2 seconds'', cr_smart_contracts = True,
      cr_launched = ''2017'', cr_founder = ''Jaynti Kanani, Sandeep Nailwal, Anurag Arjun'',
      cr_website = ''https://polygon.technology'',
      cr_description = ''An Ethereum Layer 2 scaling solution for faster and cheaper transactions.''\<rparr>),
    (''binance'',
     \<lparr>cr_name = ''BNB Chain (Binance Smart Chain)'', cr_symbol = ''BNB'',
      cr_consensus = ''Proof of Staked Authority (PoSA)'',
      cr_avg_block_time = ''~3 seconds'', cr_smart_contracts = True,
      cr_launched = ''2020'', cr_founder = ''Changpeng Zhao (CZ)'',
      cr_website = ''https://www.bnbchain.org'',
      cr_description = ''A blockchain focusing on fast and low-cost transactions, EVM compatible.''\<rparr>),
    (''avalanche'',
     \<lparr>cr_name = ''Avalanche'', cr_symbol = ''AVAX'',
      cr_consensus = ''Avalanche Consensus (PoS variant)'',
      cr_avg_block_time = ''~2 seconds'', cr_smart_contracts = True,
      cr_launched = ''2020'', cr_founder = (''Emin G'' @ [CHR 0xFC] @ ''n Sirer''),
      cr_website = ''https://www.avax.network'',
      cr_description = ''A highly scalable blockchain platform for decentralized applications.''\<rparr>),
    (''cardano'',
     \<lparr>cr_name = ''Cardano'', cr_symbol = ''ADA'',
      cr_consensus = ''Ouroboros Proof of Stake'',
      cr_avg_block_time = ''~20 seconds'', cr_smart_contracts = True,
      cr_launched = ''2017'', cr_founder = ''Charles Hoskinson'',
      cr_website = ''https://cardano.org'',
      cr_description = ''A research-driven blockchain platform focused on security and sustainability.''\<rparr>)]\<close>

definition agent_get_blockchain_info :: "string \<Rightarrow> py_error + chain_record envelope" where
  \<open>agent_get_blockchain_info chain_name =
     (let chain_key = strip (lower chain_name)
      in if chain_key \<in> set (keys agent_blockchain_data)
         then (case getitem agent_blockchain_data chain_key of
                 Inl e \<Rightarrow> Inl e
               | Inr r \<Rightarrow> Inr (Success r))
         else (let available_chains = keys agent_blockchain_data
               in Inr (NotFound (''Blockchain '' @ [CHR 0x27] @ chain_name @ [CHR 0x27] @
                                   '' not found in database.'')
                         available_chains)))\<close>

definition agent_validations :: "(string \<times> validation) list" where
  \<open>agent_validations =
   [(''ethereum'',
     \<lparr>vd_pattern = eth_pattern,
      vd_description =
        ''Ethereum addresses start with '' @ [CHR 0x27] @ ''0x'' @ [CHR 0x27] @
        '' followed by 40 hexadecimal characters''\<rparr>),
    (''bitcoin'',
     \<lparr>vd_pattern = btc_pattern,
      vd_description =
        ''Bitcoin addresses start with '' @ [CHR 0x27] @ ''1'' @ [CHR 0x27] @ '', '' @
        [CHR 0x27] @ ''3'' @ [CHR 0x27] @ '', or '' @ [CHR 0x27] @ ''bc1'' @ [CHR 0x27]\<rparr>),
    (''solana'',
     \<lparr>vd_pattern = sol_pattern,
      vd_description = ''Solana addresses are base58 encoded, typically 32-44 characters''\<rparr>)]\<close>

definition agent_validate_wallet_address ::
    "string \<Rightarrow> string option \<Rightarrow> py_error + validation_result envelope" where
  "agent_validate_wallet_address address chain_arg =
     (let chain = arg_or_default chain_arg ''ethereum'';
          chain_lower = lower chain
      in if chain_lower \<notin> set (keys agent_validations)
         then Inr (Error (''Validation not supported for chain: '' @ chain)
                     (Some (keys agent_validations)))
         else (case getitem agent_validations chain_lower of
                 Inl e \<Rightarrow> Inl e
               | Inr v \<Rightarrow>
                   (let pattern = vd_pattern v;
                        is_valid = re_match pattern address
                    in case getitem agent_validations chain_lower of
                         Inl e \<Rightarrow> Inl e
                       | Inr v' \<Rightarrow>
                           Inr (Success
                             \<lparr>vr_address = address, vr_chain = chain, vr_is_valid = is_valid,
                              vr_format_description = vd_description v',
                              vr_message = (if is_valid then ''Address format is valid!''
                                            else ''Invalid address format.'')\<rparr>))))"

definition agent_gas_info :: "(string \<times> gas_profile) list" where
  \<open>agent_gas_info =
   [(''ethereum'',
     \<lparr>gp_fee_name = ''Gas'',
      gp_unit = ''Gwei (1 Gwei = 0.000000001 ETH)'',
      gp_components = [''Base Fee'', ''Priority Fee (Tip)''],
      gp_explanation =
       (''\<newline>'' @
        ''Ethereum gas fees consist of:\<newline>'' @
        ''1. **Base Fee**: Automatically determined by network demand. This is burned (destroyed).\<newline>'' @
        ''2. **Priority Fee (Tip)**: Optional fee to incentivize validators to include your transaction faster.\<newline>'' @
        ''\<newline>'' @
        (''**Formula**: Total Fee = Gas Units '' @ [CHR 0xD7] @ '' (Base Fee + Priority Fee)\<newline>'') @
        ''\<newline>'' @
        ''**Tips to save on gas**:\<newline>'' @
        ''- Transact during low-activity periods (weekends, late nights)\<newline>'' @
        ''- Use Layer 2 solutions like Polygon, Arbitrum, or Optimism\<newline>'' @
        ''- Set a max fee limit to avoid overpaying\<newline>'' @
        ''            ''),
      gp_typical_costs =
       [(''simple_transfer'', ''21,000 gas units''),
        (''token_transfer'', ''~65,000 gas units''),
        (''uniswap_swap'', ''~150,000 gas units''),
        (''nft_mint'', ''~100,000-200,000 gas units'')]\<rparr>),
    (''solana'',
     \<lparr>gp_fee_name = ''Transaction Fee'',
      gp_unit = ''Lamports (1 SOL = 1,000,000,000 Lamports)'',
      gp_components = [''Base Fee'', ''Priority Fee''],
      gp_explanation =
       (''\<newline>'' @
        ''Solana has extremely low transaction fees:\<newline>'' @
        ''1. **Base Fee**: Fixed at 5,000 lamports (0.000005 SOL) per signature\<newline>'' @
        ''2. **Priority Fee**: Optional additional fee for faster processing\<newline>'' @
        ''\<newline>'' @
        ''Solana's fees are among the lowest in the industry, typically costing a fraction of a cent.\<newline>'' @
        ''            ''),
      gp_typical_costs =
       [(''simple_transfer'', ''~0.000005 SOL''),
        (''token_transfer'', ''~0.00001 SOL''),
        (''nft_mint'', ''~0.01-0.02 SOL'')]\<rparr>),
    (''polygon'',
     \<lparr>gp_fee_name = ''Gas (MATIC)'',
      gp_unit = ''Gwei (paid in MATIC)'',
      gp_components = [''Base Fee'', ''Priority Fee''],
      gp_explanation =
       (''\<newline>'' @
        ''Polygon uses a similar gas model to Ethereum but with much lower costs:\<newline>'' @
        ''- Uses MATIC token for gas payments\<newline>'' @
        ''- Significantly cheaper than Ethereum mainnet\<newline>'' @
        ''- Fast transaction finality (~2 seconds)\<newline>'' @
        ''\<newline>'' @
        ''Typical transaction costs are pennies compared to Ethereum's dollars.\<newline>'' @
        ''            ''),
      gp_typical_costs =
       [(''simple_transfer'', ''~$0.001-0.01''),
        (''token_transfer'', ''~$0.01-0.05''),
        (''swap'', ''~$0.05-0.20'')]\<rparr>)]\<close>

definition agent_explain_gas_fees :: "string option \<Rightarrow> py_error + gas_result envelope" where
  "agent_explain_gas_fees chain_arg =
     (let chain = arg_or_default chain_arg ''ethereum'';
          chain_lower = lower chain
      in if chain_lower \<in> set (keys agent_gas_info)
         then (case getitem agent_gas_info chain_lower of
                 Inl e \<Rightarrow> Inl e
               | Inr g \<Rightarrow> Inr (Success \<lparr>gr_chain = chain, gr_gas_info = g\<rparr>))
         else Inr (NotFound (''Gas fee information not available for '' @ chain)
                     (keys agent_gas_info)))"

definition agent_templates :: "(string \<times> contract_template) list" where
  \<open>agent_templates =
   [(''erc20'',
     \<lparr>ct_name = ''ERC-20 Token'',
      ct_description = ''Standard fungible token contract'',
      ct_code =
       (''// SPDX-License-Identifier: MIT\<newline>'' @
        ''pragma solidity ^0.8.19;\<newline>'' @
        ''\<newline>'' @
        ''import "@openzeppelin/contracts/token/ERC20/ERC20.sol";\<newline>'' @
        ''import "@openzeppelin/contracts/access/Ownable.sol";\<newline>'' @
        ''\<newline>'' @
        ''contract MyToken is ERC20, Ownable {\<newline>'' @
        ''    constructor(\<newline>'' @
        ''        string memory name,\<newline>'' @
        ''        string memory symbol,\<newline>'' @
        ''        uint256 initialSupply\<newline>'' @
        ''    ) ERC20(name, symbol) Ownable(msg.sender) {\<newline>'' @
        ''        _mint(msg.sender, initialSupply * 10 ** decimals());\<newline>'' @
        ''    }\<newline>'' @
        ''\<newline>'' @
        ''    function mint(address to, uint256 amount) public onlyOwner {\<newline>'' @
        ''        _mint(to, amount);\<newline>'' @
        ''    }\<newline>'' @
        ''}''),
      ct_explanation = Some ''This creates a basic ERC-20 token with minting capability. Uses OpenZeppelin for security.''\<rparr>),
    (''erc721'',
     \<lparr>ct_name = ''ERC-721 NFT'',
      ct_description = ''Standard non-fungible token (NFT) contract'',
      ct_code =
       (''// SPDX-License-Identifier: MIT\<newline>'' @
        ''pragma solidity ^0.8.19;\<newline>'' @
        ''\<newline>'' @
        ''import "@openzeppelin/contracts/token/ERC721/ERC721.sol";\<newline>'' @
        ''import "@openzeppelin/contracts/token/ERC721/extensions/ERC721URIStorage.sol";\<newline>'' @
        ''import "@openzeppelin/contracts/access/Ownable.sol";\<newline>'' @
        ''\<newline>'' @
        ''contract MyNFT is ERC721, ERC721URIStorage, Ownable {\<newline>'' @
        ''    uint256 private _tokenIdCounter;\<newline>'' @
        ''\<newline>'' @
        ''    constructor() ERC721("MyNFT", "MNFT") Ownable(msg.sender) {}\<newline>'' @
        ''\<newline>'' @
        ''    function safeMint(address to, string memory uri) public onlyOwner {\<newline>'' @
        ''        uint256 tokenId = _tokenIdCounter;\<newline>'' @
        ''        _tokenIdCounter++;\<newline>'' @
        ''        _safeMint(to, tokenId);\<newline>'' @
        ''        _setTokenURI(tokenId, uri);\<newline>'' @
        ''    }\<newline>'' @
        ''\<newline>'' @
        ''    function tokenURI(uint256 tokenId)\<newline>'' @
        ''        public\<newline>'' @
        ''        view\<newline>'' @
        ''        override(ERC721, ERC721URIStorage)\<newline>'' @
        ''        returns (string memory)\<newline>'' @
        ''    {\<newline>'' @
        ''        return super.tokenURI(tokenId);\<newline>'' @
        ''    }\<newline>'' @
        ''\<newline>'' @
        ''    function supportsInterface(bytes4 interfaceId)\<newline>'' @
        ''        public\<newline>'' @
        ''        view\<newline>'' @
        ''        override(ERC721, ERC721URIStorage)\<newline>'' @
        ''        returns (bool)\<newline>'' @
        ''    {\<newline>'' @
        ''        return super.supportsInterface(interfaceId);\<newline>'' @
        ''    }\<newline>'' @
        ''}''),
      ct_explanation = Some ''A basic NFT contract with metadata URI storage. Each token is unique and can have its own metadata.''\<rparr>),
    (''simple_storage'',
     \<lparr>ct_name = ''Simple Storage'',
      ct_description = ''A basic contract for learning Solidity'',
      ct_code =
       (''// SPDX-License-Identifier: MIT\<newline>'' @
        ''pragma solidity ^0.8.19;\<newline>'' @
        ''\<newline>'' @
        ''contract SimpleStorage {\<newline>'' @
        ''    uint256 private storedValue;\<newline>'' @
        ''    \<newline>'' @
        ''    event ValueChanged(uint256 newValue, address changedBy);\<newline>'' @
        ''\<newline>'' @
        ''    function set(uint256 value) public {\<newline>'' @
        ''        storedValue = value;\<newline>'' @
        ''        emit ValueChanged(value, msg.sender);\<newline>'' @
        ''    }\<newline>'' @
        ''\<newline>'' @
        ''    function get() public view returns (uint256) {\<newline>'' @
        ''        return storedValue;\<newline>'' @
        ''    }\<newline>'' @
        ''}''),
      ct_explanation = Some ''A beginner-friendly contract that stores a single number. Great for learning Solidity basics.''\<rparr>)]\<close>

definition agent_get_smart_contract_template ::
    "string \<Rightarrow> py_error + contract_template envelope" where
  \<open>agent_get_smart_contract_template contract_type =
     (let contract_key = strip (lower contract_type)
      in if contract_key \<in> set (keys agent_templates)
         then (case getitem agent_templates contract_key of
                 Inl e \<Rightarrow> Inl e
               | Inr t \<Rightarrow> Inr (Success t))
         else Inr (NotFound (''Template '' @ [CHR 0x27] @ contract_type @ [CHR 0x27] @ '' not found.'')
                     (keys agent_templates)))\<close>

definition agent_conversions :: "(string \<times> f64) list" where
  "agent_conversions =
   [(''wei'', Fin 1), (''gwei'', Fin (10 ^ 9)), (''eth'', Fin (10 ^ 18)), (''ether'', Fin (10 ^ 18)),
    (''satoshi'', Fin 1), (''sat'', Fin 1), (''btc'', Fin (10 ^ 8)), (''bitcoin'', Fin (10 ^ 8)),
    (''lamport'', Fin 1), (''lamports'', Fin 1), (''sol'', Fin (10 ^ 9)), (''solana'', Fin (10 ^ 9))]"

definition agent_convert_crypto_units ::
    "f64 \<Rightarrow> string \<Rightarrow> string \<Rightarrow> py_error + conversion_result envelope" where
  "agent_convert_crypto_units amount from_unit to_unit =
     (let from_lower = lower from_unit; to_lower = lower to_unit
      in if from_lower \<notin> set (keys agent_conversions) \<or> to_lower \<notin> set (keys agent_conversions)
         then Inr (Error ''Invalid unit specified'' (Some (keys agent_conversions)))
         else
           (let from_chain = get_chain from_lower; to_chain = get_chain to_lower
            in if from_chain \<noteq> to_chain
               then Inr (Error (''Cannot convert between different blockchains ('' @
                                  format_opt from_chain @ '' to '' @ format_opt to_chain @ '')'')
                           None)
               else (case getitem agent_conversions from_lower of
                       Inl e \<Rightarrow> Inl e
                     | Inr f \<Rightarrow>
                         (let base_amount = fmul amount f
                          in case getitem agent_conversions to_lower of
                               Inl e \<Rightarrow> Inl e
                             | Inr t \<Rightarrow>
                                 (case fdiv base_amount t of
                                    Inl e \<Rightarrow> Inl e
                                  | Inr result \<Rightarrow>
                                      Inr (Success
                                        \<lparr>cv_input = (amount, from_unit),
                                         cv_output = (result, to_unit),
                                         cv_blockchain = from_chain\<rparr>))))))"

text \<open>The outcome of a call as far as its status goes.\<close>

definition outcome :: "py_error + 'a envelope \<Rightarrow> py_error + string" where
  "outcome r = map_sum id status r"

text \<open>Half a unit in the last place of a number between 1 and 2: the bound on the relative
  error of one rounding.\<close>

definition ulp_half :: rat where
  "ulp_half = 1 / 2 ^ 53"

section \<open>Lookups in the tables\<close>

lemma in_keys_iff: "k \<in> set (keys d) \<longleftrightarrow> map_of d k \<noteq> None"
  by (simp add: keys_def map_of_eq_None_iff)

lemma getitem_in_keys:
  "k \<in> set (keys d) \<Longrightarrow> \<exists>v. map_of d k = Some v \<and> getitem d k = Inr v"
  by (auto simp: in_keys_iff getitem_def)

lemma get_blockchain_info_found:
  "map_of blockchain_data (strip (lower chain_name)) = Some r \<Longrightarrow>
     get_blockchain_info chain_name = Inr (Success r)"
  by (simp add: get_blockchain_info_def in_keys_iff getitem_def)

lemma keys_blockchain_data:
  "keys blockchain_data =
     [''ethereum'', ''bitcoin'', ''solana'', ''polygon'', ''avalanche'', ''cardano'']"
  by (simp add: keys_def blockchain_data_def)

lemma key_ethereum: "strip (lower ''ethereum'') = ''ethereum''"
  by code_simp

lemma key_dogecoin: "strip (lower ''dogecoin'') = ''dogecoin''"
  by code_simp

lemma key_ETHEREUM_spaces: "strip (lower '' ETHEREUM '') = ''ethereum''"
  by code_simp

section \<open>Chain lookup\<close>

text \<open>
  C5. \<open>get_blockchain_info\<close> lower-cases and trims its argument to a key. When the key is
  in the chain table the result is Success with the whole record of that key, and
  \<open>"ethereum"\<close> gives a record whose symbol is \<open>"ETH"\<close>. Otherwise the result is NotFound
  with the list of all keys of the table, which is not empty, and \<open>"dogecoin"\<close> gives
  status \<open>"not_found"\<close> with a list that holds \<open>"ethereum"\<close>, \<open>"bitcoin"\<close> and
  \<open>"solana"\<close>.
\<close>

theorem get_blockchain_info_lookup:
  \<open>(\<forall>r. map_of blockchain_data (strip (lower chain_name)) = Some r \<longrightarrow>
          get_blockchain_info chain_name = Inr (Success r)) \<and>
   (map_of blockchain_data (strip (lower chain_name)) = None \<longrightarrow>
      get_blockchain_info chain_name =
        Inr (NotFound (''Blockchain '' @ [CHR 0x27] @ chain_name @ [CHR 0x27] @ '' not found.'')
               (keys blockchain_data))) \<and>
   keys blockchain_data \<noteq> [] \<and>
   (\<exists>r. get_blockchain_info ''ethereum'' = Inr (Success r) \<and> cr_symbol r = ''ETH'') \<and>
   (\<exists>m ks. get_blockchain_info ''dogecoin'' = Inr (NotFound m ks) \<and>
      status (NotFound m ks :: chain_record envelope) = ''not_found'' \<and>
      ''ethereum'' \<in> set ks \<and> ''bitcoin'' \<in> set ks \<and> ''solana'' \<in> set ks)\<close>
proof (intro conjI allI impI)
  fix r
  assume "map_of blockchain_data (strip (lower chain_name)) = Some r"
  then show "get_blockchain_info chain_name = Inr (Success r)"
    by (simp add: get_blockchain_info_def in_keys_iff getitem_def)
next
  assume "map_of blockchain_data (strip (lower chain_name)) = None"
  then show \<open>get_blockchain_info chain_name =
        Inr (NotFound (''Blockchain '' @ [CHR 0x27] @ chain_name @ [CHR 0x27] @ '' not found.'')
               (keys blockchain_data))\<close>
    by (simp add: get_blockchain_info_def in_keys_iff)
next
  show "keys blockchain_data \<noteq> []"
    by (simp add: keys_blockchain_data)
next
  have "\<exists>r. map_of blockchain_data ''ethereum'' = Some r \<and> cr_symbol r = ''ETH''"
    by (simp add: blockchain_data_def)
  then show "\<exists>r. get_blockchain_info ''ethereum'' = Inr (Success r) \<and> cr_symbol r = ''ETH''"
    by (auto simp: get_blockchain_info_def key_ethereum in_keys_iff getitem_def)
next
  have "map_of blockchain_data ''dogecoin'' = None"
    by (simp add: blockchain_data_def)
  then show \<open>\<exists>m ks. get_blockchain_info ''dogecoin'' = Inr (NotFound m ks) \<and>
      status (NotFound m ks :: chain_record envelope) = ''not_found'' \<and>
      ''ethereum'' \<in> set ks \<and> ''bitcoin'' \<in> set ks \<and> ''solana'' \<in> set ks\<close>
    by (simp add: get_blockchain_info_def key_dogecoin in_keys_iff keys_blockchain_data)
qed

theorem get_blockchain_info_lookup_witness:
  \<open>(\<exists>r. get_blockchain_info '' ETHEREUM '' = Inr (Success r) \<and> cr_name r = ''Ethereum'') \<and>
   get_blockchain_info ''dogecoin'' =
     Inr (NotFound (''Blockchain '' @ [CHR 0x27] @ ''dogecoin'' @ [CHR 0x27] @ '' not found.'')
            [''ethereum'', ''bitcoin'', ''solana'', ''polygon'', ''avalanche'', ''cardano''])\<close>
proof -
  obtain r where r: "map_of blockchain_data ''ethereum'' = Some r" "cr_name r = ''Ethereum''"
    by (simp add: blockchain_data_def)
  have none: "map_of blockchain_data ''dogecoin'' = None"
    by (simp add: blockchain_data_def)
  from r get_blockchain_info_lookup [of "'' ETHEREUM ''"]
  have "get_blockchain_info '' ETHEREUM '' = Inr (Success r)"
    by (simp add: key_ETHEREUM_spaces)
  moreover from none get_blockchain_info_lookup [of "''dogecoin''"]
  have \<open>get_blockchain_info ''dogecoin'' =
     Inr (NotFound (''Blockchain '' @ [CHR 0x27] @ ''dogecoin'' @ [CHR 0x27] @ '' not found.'')
            (keys blockchain_data))\<close>
    by (simp add: key_dogecoin)
  ultimately show ?thesis
    using r(2) by (simp add: keys_blockchain_data)
qed

section \<open>What the matcher accepts\<close>

text \<open>A bounded repetition of a character class consumes a prefix of class characters.\<close>

lemma rep_Cls:
  "(b', ys) \<in> set (rep (ms (Cls C)) lo hi (b, xs)) \<longleftrightarrow>
     (\<exists>k. lo \<le> k \<and> k \<le> hi \<and> k \<le> length xs \<and> list_all (in_class C) (take k xs) \<and>
          ys = drop k xs \<and> b' = (b \<and> k = 0))"
proof (induction hi arbitrary: lo b xs)
  case 0
  then show ?case by auto
next
  case (Suc hi)
  show ?case
  proof (cases xs)
    case Nil
    then show ?thesis by auto
  next
    case (Cons x t)
    show ?thesis
    proof (cases "in_class C x")
      case False
      with Cons show ?thesis
        apply simp
        apply (rule iffI)
         apply force
        apply (erule exE)
        subgoal for k by (cases k) auto
        done
    next
      case True
      have step: "(b', ys) \<in> set (rep (ms (Cls C)) lo (Suc hi) (b, xs)) \<longleftrightarrow>
            (b', ys) \<in> set (rep (ms (Cls C)) (lo - 1) hi (False, t)) \<or> (lo = 0 \<and> b' = b \<and> ys = xs)"
        using Cons True by auto
      show ?thesis
        unfolding step Suc.IH
      proof (rule iffI)
        assume "(\<exists>k\<ge>lo - 1. k \<le> hi \<and> k \<le> length t \<and> list_all (in_class C) (take k t) \<and>
                  ys = drop k t \<and> b' = (False \<and> k = 0)) \<or> lo = 0 \<and> b' = b \<and> ys = xs"
        then show "\<exists>k\<ge>lo. k \<le> Suc hi \<and> k \<le> length xs \<and> list_all (in_class C) (take k xs) \<and>
                  ys = drop k xs \<and> b' = (b \<and> k = 0)"
        proof
          assume "\<exists>k\<ge>lo - 1. k \<le> hi \<and> k \<le> length t \<and> list_all (in_class C) (take k t) \<and>
                  ys = drop k t \<and> b' = (False \<and> k = 0)"
          then obtain k where "lo - 1 \<le> k" "k \<le> hi" "k \<le> length t"
            "list_all (in_class C) (take k t)" "ys = drop k t" "\<not> b'" by auto
          then show ?thesis
            using Cons True by (intro exI[of _ "Suc k"]) auto
        next
          assume "lo = 0 \<and> b' = b \<and> ys = xs"
          then show ?thesis by (intro exI[of _ 0]) auto
        qed
      next
        assume "\<exists>k\<ge>lo. k \<le> Suc hi \<and> k \<le> length xs \<and> list_all (in_class C) (take k xs) \<and>
                  ys = drop k xs \<and> b' = (b \<and> k = 0)"
        then obtain k where k: "lo \<le> k" "k \<le> Suc hi" "k \<le> length xs"
          "list_all (in_class C) (take k xs)" "ys = drop k xs" "b' = (b \<and> k = 0)" by auto
        show "(\<exists>k\<ge>lo - 1. k \<le> hi \<and> k \<le> length t \<and> list_all (in_class C) (take k t) \<and>
                  ys = drop k t \<and> b' = (False \<and> k = 0)) \<or> lo = 0 \<and> b' = b \<and> ys = xs"
        proof (cases k)
          case 0
          with k show ?thesis by auto
        next
          case (Suc j)
          with k Cons have "lo - 1 \<le> j" "j \<le> hi" "j \<le> length t"
            "list_all (in_class C) (take j t)" "ys = drop j t" "\<not> b'" by auto
          then show ?thesis by auto
        qed
      qed
    qed
  qed
qed

lemma ms_Seq_ne: "ms (Seq a b) st \<noteq> [] \<longleftrightarrow> (\<exists>m \<in> set (ms a st). ms b m \<noteq> [])"
  by simp

lemma ex_ms_Seq:
  "(\<exists>m \<in> set (ms (Seq a b) st). P m) \<longleftrightarrow> (\<exists>m1 \<in> set (ms a st). \<exists>m \<in> set (ms b m1). P m)"
  by auto

lemma ex_ms_Alt:
  "(\<exists>m \<in> set (ms (Alt a b) st). P m) \<longleftrightarrow>
     (\<exists>m \<in> set (ms a st). P m) \<or> (\<exists>m \<in> set (ms b st). P m)"
  by auto

lemma ex_ms_Bol: "(\<exists>m \<in> set (ms Bol (b, s)). P m) \<longleftrightarrow> b \<and> P (b, s)"
  by auto

lemma ex_ms_Chr:
  "(\<exists>m \<in> set (ms (Chr c) (b, s)). P m) \<longleftrightarrow> (\<exists>t. s = c # t \<and> P (False, t))"
  by (cases s) auto

lemma ex_ms_Rep_Cls:
  "(\<exists>m \<in> set (ms (Rep (Cls C) lo hi) (b, t)). P m) \<longleftrightarrow>
     (\<exists>k. lo \<le> k \<and> k \<le> hi \<and> k \<le> length t \<and> list_all (in_class C) (take k t) \<and>
          P (b \<and> k = 0, drop k t))"
proof
  assume "\<exists>m \<in> set (ms (Rep (Cls C) lo hi) (b, t)). P m"
  then obtain b' ys where m: "(b', ys) \<in> set (rep (ms (Cls C)) lo hi (b, t))" "P (b', ys)"
    by auto
  then show "\<exists>k. lo \<le> k \<and> k \<le> hi \<and> k \<le> length t \<and> list_all (in_class C) (take k t) \<and>
          P (b \<and> k = 0, drop k t)"
    unfolding rep_Cls by blast
next
  assume "\<exists>k. lo \<le> k \<and> k \<le> hi \<and> k \<le> length t \<and> list_all (in_class C) (take k t) \<and>
          P (b \<and> k = 0, drop k t)"
  then obtain k where k: "lo \<le> k" "k \<le> hi" "k \<le> length t" "list_all (in_class C) (take k t)"
    "P (b \<and> k = 0, drop k t)" by blast
  then have "(b \<and> k = 0, drop k t) \<in> set (rep (ms (Cls C)) lo hi (b, t))"
    unfolding rep_Cls by blast
  with k(5) show "\<exists>m \<in> set (ms (Rep (Cls C) lo hi) (b, t)). P m"
    by auto
qed

lemma ms_Eol_ne: "ms Eol (b, t) \<noteq> [] \<longleftrightarrow> at_end t"
  by (simp add: at_end_def)

lemmas ms_steps = ms_Seq_ne ex_ms_Seq ex_ms_Alt ex_ms_Bol ex_ms_Chr ex_ms_Rep_Cls ms_Eol_ne



text \<open>The ranges of the three character classes, as alphabets.\<close>

lemma char_range:
  "(of_char a :: nat) \<le> of_char c \<and> (of_char c :: nat) \<le> of_char b \<longleftrightarrow>
     c \<in> set (map char_of [of_char a ..< Suc (of_char b) :: nat])"
proof
  assume "(of_char a :: nat) \<le> of_char c \<and> (of_char c :: nat) \<le> of_char b"
  then have "(of_char c :: nat) \<in> set [of_char a ..< Suc (of_char b)]"
    by (simp only: set_upt atLeastLessThan_iff less_Suc_eq_le)
  then have "char_of (of_char c :: nat) \<in> char_of ` set [of_char a ..< Suc (of_char b) :: nat]"
    by (rule imageI)
  then show "c \<in> set (map char_of [of_char a ..< Suc (of_char b) :: nat])" by simp
next
  assume "c \<in> set (map char_of [of_char a ..< Suc (of_char b) :: nat])"
  then obtain n :: nat where n: "c = char_of n" "of_char a \<le> n" "n \<le> of_char b" by auto
  have "(of_char b :: nat) < 256" by simp
  with n(3) have "n < 256" by (rule le_less_trans)
  then have "(of_char c :: nat) = n" using n(1) by simp
  with n show "(of_char a :: nat) \<le> of_char c \<and> (of_char c :: nat) \<le> of_char b" by simp
qed

lemma rng_af: "map char_of [of_char CHR ''a'' ..< Suc (of_char CHR ''f'') :: nat] = ''abcdef''" by code_simp
lemma rng_AF: "map char_of [of_char CHR ''A'' ..< Suc (of_char CHR ''F'') :: nat] = ''ABCDEF''" by code_simp
lemma rng_09: "map char_of [of_char CHR ''0'' ..< Suc (of_char CHR ''9'') :: nat] = ''0123456789''" by code_simp
lemma rng_19: "map char_of [of_char CHR ''1'' ..< Suc (of_char CHR ''9'') :: nat] = ''123456789''" by code_simp
lemma rng_az: "map char_of [of_char CHR ''a'' ..< Suc (of_char CHR ''z'') :: nat] = ''abcdefghijklmnopqrstuvwxyz''" by code_simp
lemma rng_AH: "map char_of [of_char CHR ''A'' ..< Suc (of_char CHR ''H'') :: nat] = ''ABCDEFGH''" by code_simp
lemma rng_JN: "map char_of [of_char CHR ''J'' ..< Suc (of_char CHR ''N'') :: nat] = ''JKLMN''" by code_simp
lemma rng_PZ: "map char_of [of_char CHR ''P'' ..< Suc (of_char CHR ''Z'') :: nat] = ''PQRSTUVWXYZ''" by code_simp
lemma rng_ak: "map char_of [of_char CHR ''a'' ..< Suc (of_char CHR ''k'') :: nat] = ''abcdefghijk''" by code_simp
lemma rng_mz: "map char_of [of_char CHR ''m'' ..< Suc (of_char CHR ''z'') :: nat] = ''mnopqrstuvwxyz''" by code_simp

lemmas rngs = rng_af rng_AF rng_09 rng_19 rng_az rng_AH rng_JN rng_PZ rng_ak rng_mz

lemma in_class_hex:
  "in_class [(CHR ''a'', CHR ''f''), (CHR ''A'', CHR ''F''), (CHR ''0'', CHR ''9'')] = is_hex"
  unfolding fun_eq_iff in_class_def is_hex_def list.set bex_simps Un_iff insert_iff fst_conv snd_conv
    char_range rngs
  by auto

lemma in_class_btc:
  "in_class [(CHR ''a'', CHR ''z''), (CHR ''A'', CHR ''H''), (CHR ''J'', CHR ''N''),
             (CHR ''P'', CHR ''Z''), (CHR ''0'', CHR ''9'')] = btc_char"
  unfolding fun_eq_iff in_class_def btc_char_def list.set bex_simps Un_iff insert_iff fst_conv snd_conv
    char_range rngs
  by auto

lemma in_class_sol:
  "in_class [(CHR ''1'', CHR ''9''), (CHR ''A'', CHR ''H''), (CHR ''J'', CHR ''N''),
             (CHR ''P'', CHR ''Z''), (CHR ''a'', CHR ''k''), (CHR ''m'', CHR ''z'')] = base58_char"
  unfolding fun_eq_iff in_class_def base58_char_def list.set bex_simps Un_iff insert_iff fst_conv snd_conv
    char_range rngs
  by auto

lemma tail_iff:
  "(\<exists>k. lo \<le> k \<and> k \<le> hi \<and> k \<le> length t \<and> list_all P (take k t) \<and> at_end (drop k t)) \<longleftrightarrow>
     body_ok P lo hi t \<or> (\<exists>u. t = u @ [CHR 0x0A] \<and> body_ok P lo hi u)"
proof
  assume "\<exists>k. lo \<le> k \<and> k \<le> hi \<and> k \<le> length t \<and> list_all P (take k t) \<and> at_end (drop k t)"
  then obtain k where k: "lo \<le> k" "k \<le> hi" "k \<le> length t" "list_all P (take k t)"
    "at_end (drop k t)" by blast
  from k(5) consider "drop k t = []" | "drop k t = [CHR 0x0A]" by (auto simp: at_end_def)
  then show "body_ok P lo hi t \<or> (\<exists>u. t = u @ [CHR 0x0A] \<and> body_ok P lo hi u)"
  proof cases
    case 1
    with k have "k = length t" by simp
    with k show ?thesis by (simp add: body_ok_def)
  next
    case 2
    then have "t = take k t @ [CHR 0x0A]" by (metis append_take_drop_id)
    moreover have "body_ok P lo hi (take k t)" using k by (simp add: body_ok_def)
    ultimately show ?thesis by blast
  qed
next
  assume "body_ok P lo hi t \<or> (\<exists>u. t = u @ [CHR 0x0A] \<and> body_ok P lo hi u)"
  then show "\<exists>k. lo \<le> k \<and> k \<le> hi \<and> k \<le> length t \<and> list_all P (take k t) \<and> at_end (drop k t)"
  proof
    assume "body_ok P lo hi t"
    then show ?thesis by (intro exI[of _ "length t"]) (simp add: body_ok_def at_end_def)
  next
    assume "\<exists>u. t = u @ [CHR 0x0A] \<and> body_ok P lo hi u"
    then obtain u where "t = u @ [CHR 0x0A]" "body_ok P lo hi u" by blast
    then show ?thesis by (intro exI[of _ "length u"]) (simp add: body_ok_def at_end_def)
  qed
qed

lemma re_match_eth:
  "re_match eth_pattern s \<longleftrightarrow>
     (\<exists>t. s = ''0x'' @ t \<and>
        (body_ok is_hex 40 40 t \<or> (\<exists>u. t = u @ [CHR 0x0A] \<and> body_ok is_hex 40 40 u)))"
  unfolding re_match_def eth_pattern_def lit_def list.map seqs.simps
  by (simp only: ms_steps tail_iff in_class_hex) auto

lemma re_match_btc:
  "re_match btc_pattern s \<longleftrightarrow>
     (\<exists>t. (s = ''1'' @ t \<or> s = ''3'' @ t \<or> s = ''bc1'' @ t) \<and>
        (body_ok btc_char 25 62 t \<or> (\<exists>u. t = u @ [CHR 0x0A] \<and> body_ok btc_char 25 62 u)))"
  unfolding re_match_def btc_pattern_def lit_def list.map seqs.simps
  by (simp only: ms_steps tail_iff in_class_btc) auto

lemma re_match_sol:
  "re_match sol_pattern s \<longleftrightarrow>
     (body_ok base58_char 32 44 s \<or> (\<exists>u. s = u @ [CHR 0x0A] \<and> body_ok base58_char 32 44 u))"
  unfolding re_match_def sol_pattern_def lit_def list.map seqs.simps
  by (simp only: ms_steps tail_iff in_class_sol) auto


section \<open>The address validator\<close>

lemma starts_with: "(\<exists>t. s = p @ t \<and> Q t) \<longleftrightarrow> take (length p) s = p \<and> Q (drop (length p) s)"
  by (metis append_eq_conv_conj)

lemma keys_validations: "keys validations = [''ethereum'', ''bitcoin'', ''solana'']"
  by (simp add: keys_def validations_def)

lemma lower_ethereum: "lower ''ethereum'' = ''ethereum''" by code_simp
lemma lower_bitcoin: "lower ''bitcoin'' = ''bitcoin''" by code_simp
lemma lower_solana: "lower ''solana'' = ''solana''" by code_simp

lemma validations_ethereum: "\<exists>v. map_of validations ''ethereum'' = Some v \<and> vd_pattern v = eth_pattern"
  by (simp add: validations_def)

lemma validations_bitcoin: "\<exists>v. map_of validations ''bitcoin'' = Some v \<and> vd_pattern v = btc_pattern"
  by (simp add: validations_def)

lemma validations_solana: "\<exists>v. map_of validations ''solana'' = Some v \<and> vd_pattern v = sol_pattern"
  by (simp add: validations_def)

lemma is_valid_supported:
  "map_of validations (lower chain) = Some v \<Longrightarrow>
     is_valid address chain = Some (re_match (vd_pattern v) address)"
  by (simp add: is_valid_def validate_wallet_address_def in_keys_iff getitem_def Let_def)

lemma is_valid_ethereum: "is_valid address ''ethereum'' = Some (re_match eth_pattern address)"
  using validations_ethereum is_valid_supported [of "''ethereum''"]
  by (auto simp: lower_ethereum)

lemma is_valid_bitcoin: "is_valid address ''bitcoin'' = Some (re_match btc_pattern address)"
  using validations_bitcoin is_valid_supported [of "''bitcoin''"]
  by (auto simp: lower_bitcoin)

lemma is_valid_solana: "is_valid address ''solana'' = Some (re_match sol_pattern address)"
  using validations_solana is_valid_supported [of "''solana''"]
  by (auto simp: lower_solana)

lemma body_ok_no_newline:
  assumes "body_ok P lo hi u" "\<not> P (CHR 0x0A)"
  shows "CHR 0x0A \<notin> set u"
  using assms by (auto simp: body_ok_def list_all_iff)

lemma re_match_eth_format:
  "re_match eth_pattern s \<longleftrightarrow> eth_format s \<or> (\<exists>a. s = a @ [CHR 0x0A] \<and> eth_format a)"
proof -
  have "re_match eth_pattern s \<longleftrightarrow>
      (\<exists>t. s = ''0x'' @ t \<and> body_ok is_hex 40 40 t) \<or>
      (\<exists>t. s = ''0x'' @ t \<and> (\<exists>u. t = u @ [CHR 0x0A] \<and> body_ok is_hex 40 40 u))"
    unfolding re_match_eth by blast
  also have "(\<exists>t. s = ''0x'' @ t \<and> body_ok is_hex 40 40 t) \<longleftrightarrow> eth_format s"
    unfolding starts_with eth_format_def by (simp add: numeral_2_eq_2)
  also have "(\<exists>t. s = ''0x'' @ t \<and> (\<exists>u. t = u @ [CHR 0x0A] \<and> body_ok is_hex 40 40 u)) \<longleftrightarrow>
      (\<exists>a. s = a @ [CHR 0x0A] \<and> eth_format a)"
  proof
    assume "\<exists>t. s = ''0x'' @ t \<and> (\<exists>u. t = u @ [CHR 0x0A] \<and> body_ok is_hex 40 40 u)"
    then obtain u where u: "s = (''0x'' @ u) @ [CHR 0x0A]" "body_ok is_hex 40 40 u" by auto
    have "eth_format (''0x'' @ u)" using u(2) by (simp add: eth_format_def)
    with u(1) show "\<exists>a. s = a @ [CHR 0x0A] \<and> eth_format a" by blast
  next
    assume "\<exists>a. s = a @ [CHR 0x0A] \<and> eth_format a"
    then obtain a where a: "s = a @ [CHR 0x0A]" "eth_format a" by blast
    from a(2) have "\<exists>t. a = ''0x'' @ t \<and> body_ok is_hex 40 40 t"
      unfolding starts_with eth_format_def by (simp add: numeral_2_eq_2)
    then obtain t where "a = ''0x'' @ t" "body_ok is_hex 40 40 t" by blast
    with a(1) show "\<exists>t. s = ''0x'' @ t \<and> (\<exists>u. t = u @ [CHR 0x0A] \<and> body_ok is_hex 40 40 u)"
      by auto
  qed
  finally show ?thesis .
qed


text \<open>
  C2. The claim: with chain \<open>"ethereum"\<close>, \<open>is_valid\<close> is true exactly when the whole
  address is \<open>"0x"\<close> followed by 40 hexadecimal characters. The pattern ends in \<open>$\<close>,
  which also matches before a final newline: for every body \<open>h\<close> of 40 hexadecimal
  characters, the address \<open>"0x" + h + "\n"\<close> is reported valid although it is not
  of the format.
\<close>

theorem eth_trailing_newline_accepted:
  "body_ok is_hex 40 40 h \<Longrightarrow>
     is_valid (''0x'' @ h @ [CHR 0x0A]) ''ethereum'' = Some True \<and>
     \<not> eth_format (''0x'' @ h @ [CHR 0x0A])"
proof
  assume h: "body_ok is_hex 40 40 h"
  then have "eth_format (''0x'' @ h)" by (simp add: eth_format_def)
  then have "re_match eth_pattern ((''0x'' @ h) @ [CHR 0x0A])"
    unfolding re_match_eth_format by blast
  then show "is_valid (''0x'' @ h @ [CHR 0x0A]) ''ethereum'' = Some True"
    by (simp add: is_valid_ethereum)
  from h show "\<not> eth_format (''0x'' @ h @ [CHR 0x0A])"
    by (simp add: eth_format_def body_ok_def)
qed

theorem eth_trailing_newline_accepted_witness:
  "is_valid (''0x71C7656EC7ab88b098defB751B7401B5f6d8976F'' @ [CHR 0x0A]) ''ethereum'' = Some True \<and>
   \<not> eth_format (''0x71C7656EC7ab88b098defB751B7401B5f6d8976F'' @ [CHR 0x0A])"
proof -
  have "body_ok is_hex 40 40 ''71C7656EC7ab88b098defB751B7401B5f6d8976F''"
    by (simp add: body_ok_def is_hex_def)
  from eth_trailing_newline_accepted [OF this] show ?thesis by simp
qed


text \<open>
  With chain \<open>"ethereum"\<close>, \<open>is_valid\<close> is true exactly for the addresses of the format and
  for those with one newline after an address of the format.
\<close>

theorem validate_ethereum_iff:
  "is_valid address ''ethereum'' =
     Some (eth_format address \<or> (\<exists>a. address = a @ [CHR 0x0A] \<and> eth_format a))"
  by (simp add: is_valid_ethereum re_match_eth_format)

lemma no_final_newline: "last s \<noteq> CHR 0x0A \<Longrightarrow> s \<noteq> a @ [CHR 0x0A]"
  by auto

theorem validate_ethereum_iff_witness:
  "is_valid ''0x71C7656EC7ab88b098defB751B7401B5f6d8976F'' ''ethereum'' = Some True \<and>
   is_valid ''0x71C7656EC7ab88b098defB751B7401B5f6d8976'' ''ethereum'' = Some False \<and>
   is_valid ''abc'' ''ethereum'' = Some False"
proof -
  have 1: "eth_format ''0x71C7656EC7ab88b098defB751B7401B5f6d8976F''"
    by (simp add: eth_format_def body_ok_def is_hex_def)
  have 2: "\<not> eth_format ''0x71C7656EC7ab88b098defB751B7401B5f6d8976''"
    by (simp add: eth_format_def body_ok_def)
  have 3: "\<not> eth_format ''abc''"
    by (simp add: eth_format_def)
  have 4: "\<And>a. ''0x71C7656EC7ab88b098defB751B7401B5f6d8976'' \<noteq> a @ [CHR 0x0A]"
    by (rule no_final_newline) simp
  have 5: "\<And>a. ''abc'' \<noteq> a @ [CHR 0x0A]"
    by (rule no_final_newline) simp
  from validate_ethereum_iff [of "''0x71C7656EC7ab88b098defB751B7401B5f6d8976F''"] 1
  have a: "is_valid ''0x71C7656EC7ab88b098defB751B7401B5f6d8976F'' ''ethereum'' = Some True"
    by simp
  from validate_ethereum_iff [of "''0x71C7656EC7ab88b098defB751B7401B5f6d8976''"] 2 4
  have b: "is_valid ''0x71C7656EC7ab88b098defB751B7401B5f6d8976'' ''ethereum'' = Some False"
    by simp
  from validate_ethereum_iff [of "''abc''"] 3 5
  have c: "is_valid ''abc'' ''ethereum'' = Some False"
    by simp
  from a b c show ?thesis by simp
qed

lemma btc_plain:
  "(\<exists>t. (s = ''1'' @ t \<or> s = ''3'' @ t \<or> s = ''bc1'' @ t) \<and> body_ok P 25 62 t) \<longleftrightarrow>
     (take 1 s = ''1'' \<and> body_ok P 25 62 (drop 1 s)) \<or>
     (take 1 s = ''3'' \<and> body_ok P 25 62 (drop 1 s)) \<or>
     (take 3 s = ''bc1'' \<and> body_ok P 25 62 (drop 3 s))"
proof -
  have "(\<exists>t. (s = ''1'' @ t \<or> s = ''3'' @ t \<or> s = ''bc1'' @ t) \<and> body_ok P 25 62 t) \<longleftrightarrow>
     (\<exists>t. s = ''1'' @ t \<and> body_ok P 25 62 t) \<or> (\<exists>t. s = ''3'' @ t \<and> body_ok P 25 62 t) \<or>
     (\<exists>t. s = ''bc1'' @ t \<and> body_ok P 25 62 t)"
    by blast
  then show ?thesis unfolding starts_with by (simp add: numeral_3_eq_3)
qed


text \<open>
  C7, as amended. For an address without a newline character: with chain \<open>"bitcoin"\<close>,
  \<open>is_valid\<close> is true exactly when the address is \<open>1\<close>, \<open>3\<close> or \<open>bc1\<close> followed by 25 to
  62 characters, each a lower-case letter, an upper-case letter other than \<open>I\<close> and \<open>O\<close>,
  or a digit (\<open>0\<close> and \<open>l\<close> included); with chain \<open>"solana"\<close>, exactly when it is 32 to 44
  characters of the base58 alphabet. For every address, chain \<open>"solana"\<close> gives the
  result of the Solana pattern on that address, whatever its shape.
\<close>

theorem validate_bitcoin_solana_formats:
  "(CHR 0x0A \<notin> set address \<longrightarrow>
      is_valid address ''bitcoin'' = Some (btc_format address) \<and>
      is_valid address ''solana'' = Some (sol_format address)) \<and>
   is_valid address ''solana'' = Some (re_match sol_pattern address)"
proof (intro conjI impI)
  assume nl: "CHR 0x0A \<notin> set address"
  have "re_match btc_pattern address \<longleftrightarrow>
      (\<exists>t. (address = ''1'' @ t \<or> address = ''3'' @ t \<or> address = ''bc1'' @ t) \<and>
         body_ok btc_char 25 62 t)"
    unfolding re_match_btc using nl by auto
  then have "re_match btc_pattern address \<longleftrightarrow> btc_format address"
    unfolding btc_plain btc_format_def .
  then show "is_valid address ''bitcoin'' = Some (btc_format address)"
    by (simp add: is_valid_bitcoin)
  have "re_match sol_pattern address \<longleftrightarrow> sol_format address"
    unfolding re_match_sol sol_format_def using nl by auto
  then show "is_valid address ''solana'' = Some (sol_format address)"
    by (simp add: is_valid_solana)
next
  show "is_valid address ''solana'' = Some (re_match sol_pattern address)"
    by (rule is_valid_solana)
qed

theorem validate_bitcoin_solana_formats_witness:
  "CHR 0x0A \<notin> set ''1A1zP1eP5QGefi2DMPTfTL5SLmv7DivfNa'' \<and>
   is_valid ''1A1zP1eP5QGefi2DMPTfTL5SLmv7DivfNa'' ''bitcoin'' = Some True \<and>
   is_valid ''1A1zP1eP5QGefi2DMPTfTL5SLmv7DivfNa'' ''solana'' = Some True \<and>
   is_valid ''0x71C7656EC7ab88b098defB751B7401B5f6d8976F'' ''solana'' = Some False"
proof -
  have nl: "CHR 0x0A \<notin> set ''1A1zP1eP5QGefi2DMPTfTL5SLmv7DivfNa''" by simp
  have nl2: "CHR 0x0A \<notin> set ''0x71C7656EC7ab88b098defB751B7401B5f6d8976F''" by simp
  have b: "btc_format ''1A1zP1eP5QGefi2DMPTfTL5SLmv7DivfNa''"
    by (simp add: btc_format_def body_ok_def btc_char_def)
  have s: "sol_format ''1A1zP1eP5QGefi2DMPTfTL5SLmv7DivfNa''"
    by (simp add: sol_format_def body_ok_def base58_char_def)
  have e: "\<not> sol_format ''0x71C7656EC7ab88b098defB751B7401B5f6d8976F''"
    by (simp add: sol_format_def body_ok_def base58_char_def)
  from validate_bitcoin_solana_formats [of "''1A1zP1eP5QGefi2DMPTfTL5SLmv7DivfNa''"]
    validate_bitcoin_solana_formats [of "''0x71C7656EC7ab88b098defB751B7401B5f6d8976F''"]
    nl nl2 b s e
  show ?thesis by simp
qed


text \<open>
  C7 as stated fails: \<open>1\<close> followed by 25 zeros is reported valid for chain
  \<open>"bitcoin"\<close>, and \<open>0\<close> is one of the characters the base58 convention leaves out.
\<close>

theorem bitcoin_zero_counterexample:
  "is_valid ''10000000000000000000000000'' ''bitcoin'' = Some True \<and>
   \<not> claimed_btc_format ''10000000000000000000000000''"
proof
  have "btc_format ''10000000000000000000000000''"
    by (simp add: btc_format_def body_ok_def btc_char_def)
  moreover have "CHR 0x0A \<notin> set ''10000000000000000000000000''" by simp
  ultimately show "is_valid ''10000000000000000000000000'' ''bitcoin'' = Some True"
    using is_valid_bitcoin [of "''10000000000000000000000000''"] re_match_btc
    by (simp add: btc_plain btc_format_def)
  show "\<not> claimed_btc_format ''10000000000000000000000000''"
    by (simp add: claimed_btc_format_def body_ok_def base58_char_def)
qed

lemma keys_gas_info: "keys gas_info = [''ethereum'', ''solana'', ''polygon'']"
  by (simp add: keys_def gas_info_def)

lemma keys_templates: "keys templates = [''erc20'', ''erc721'', ''simple_storage'']"
  by (simp add: keys_def templates_def)

lemma keys_conversions:
  "keys conversions = [''wei'', ''gwei'', ''eth'', ''ether'', ''satoshi'', ''sat'', ''btc'', ''bitcoin'',
     ''lamport'', ''lamports'', ''sol'', ''solana'']"
  by (simp add: keys_def conversions_def)

lemma validate_supported:
  "map_of validations (lower (arg_or_default chain_arg ''ethereum'')) = Some v \<Longrightarrow>
   validate_wallet_address address chain_arg =
     Inr (Success
       \<lparr>vr_address = address, vr_chain = arg_or_default chain_arg ''ethereum'',
        vr_is_valid = re_match (vd_pattern v) address,
        vr_format_description = vd_description v,
        vr_message = (if re_match (vd_pattern v) address then ''Address format is valid!''
                      else ''Invalid address format.'')\<rparr>)"
  by (simp add: validate_wallet_address_def in_keys_iff getitem_def Let_def)

lemma validate_unsupported:
  "map_of validations (lower (arg_or_default chain_arg ''ethereum'')) = None \<Longrightarrow>
   validate_wallet_address address chain_arg =
     Inr (Error (''Validation not supported for chain: '' @ arg_or_default chain_arg ''ethereum'')
            (Some (keys validations)))"
  by (simp add: validate_wallet_address_def in_keys_iff Let_def)


text \<open>
  C8. The chain argument of \<open>validate_wallet_address\<close> defaults to \<open>"ethereum"\<close>. When the
  lower-cased chain is not one of \<open>ethereum\<close>, \<open>bitcoin\<close>, \<open>solana\<close>, the result is Error
  with the list of these three. Otherwise it is Success with the address, the chain as
  given, the flag the chain's pattern gives on the address, the chain's format
  description, and the message \<open>"Address format is valid!"\<close> or
  \<open>"Invalid address format."\<close> according to the flag: an invalid address is a Success
  with the flag false, never an Error.
\<close>

theorem validate_wallet_address_envelope:
  "validate_wallet_address address None = validate_wallet_address address (Some ''ethereum'') \<and>
   (lower chain \<notin> set [''ethereum'', ''bitcoin'', ''solana''] \<longrightarrow>
      validate_wallet_address address (Some chain) =
        Inr (Error (''Validation not supported for chain: '' @ chain)
               (Some [''ethereum'', ''bitcoin'', ''solana'']))) \<and>
   (lower chain \<in> set [''ethereum'', ''bitcoin'', ''solana''] \<longrightarrow>
      (\<exists>v. map_of validations (lower chain) = Some v \<and>
         validate_wallet_address address (Some chain) =
           Inr (Success
             \<lparr>vr_address = address, vr_chain = chain,
              vr_is_valid = re_match (vd_pattern v) address,
              vr_format_description = vd_description v,
              vr_message = (if re_match (vd_pattern v) address then ''Address format is valid!''
                            else ''Invalid address format.'')\<rparr>)))"
proof (intro conjI impI)
  show "validate_wallet_address address None = validate_wallet_address address (Some ''ethereum'')"
    by (simp add: validate_wallet_address_def)
next
  assume "lower chain \<notin> set [''ethereum'', ''bitcoin'', ''solana'']"
  then have "map_of validations (lower chain) = None"
    using in_keys_iff [of "lower chain" validations] by (simp add: keys_validations)
  then show "validate_wallet_address address (Some chain) =
        Inr (Error (''Validation not supported for chain: '' @ chain)
               (Some [''ethereum'', ''bitcoin'', ''solana'']))"
    using validate_unsupported [of "Some chain" address] by (simp add: keys_validations)
next
  assume "lower chain \<in> set [''ethereum'', ''bitcoin'', ''solana'']"
  then obtain v where v: "map_of validations (lower chain) = Some v"
    using in_keys_iff [of "lower chain" validations] by (auto simp: keys_validations)
  from validate_supported [of "Some chain" v address] v
  show "\<exists>v. map_of validations (lower chain) = Some v \<and>
         validate_wallet_address address (Some chain) =
           Inr (Success
             \<lparr>vr_address = address, vr_chain = chain,
              vr_is_valid = re_match (vd_pattern v) address,
              vr_format_description = vd_description v,
              vr_message = (if re_match (vd_pattern v) address then ''Address format is valid!''
                            else ''Invalid address format.'')\<rparr>)"
    by auto
qed

lemma lower_Ethereum: "lower ''Ethereum'' = ''ethereum''" by code_simp
lemma lower_dogecoin: "lower ''dogecoin'' = ''dogecoin''" by code_simp

theorem validate_wallet_address_envelope_witness:
  \<open>(\<exists>d. validate_wallet_address ''abc'' (Some ''Ethereum'') =
      Inr (Success \<lparr>vr_address = ''abc'', vr_chain = ''Ethereum'', vr_is_valid = False,
             vr_format_description = d, vr_message = ''Invalid address format.''\<rparr>)) \<and>
   validate_wallet_address ''abc'' (Some ''dogecoin'') =
     Inr (Error ''Validation not supported for chain: dogecoin''
            (Some [''ethereum'', ''bitcoin'', ''solana'']))\<close>
proof -
  have inv: "\<not> re_match eth_pattern ''abc''"
    unfolding re_match_eth by simp
  have e: "validate_wallet_address ''abc'' (Some ''dogecoin'') =
     Inr (Error ''Validation not supported for chain: dogecoin''
            (Some [''ethereum'', ''bitcoin'', ''solana'']))"
    using validate_wallet_address_envelope [of "''abc''" "''dogecoin''"]
    by (simp add: lower_dogecoin)
  obtain v where v: "map_of validations ''ethereum'' = Some v"
    "validate_wallet_address ''abc'' (Some ''Ethereum'') =
       Inr (Success \<lparr>vr_address = ''abc'', vr_chain = ''Ethereum'',
              vr_is_valid = re_match (vd_pattern v) ''abc'',
              vr_format_description = vd_description v,
              vr_message = (if re_match (vd_pattern v) ''abc'' then ''Address format is valid!''
                            else ''Invalid address format.'')\<rparr>)"
    using validate_wallet_address_envelope [of "''abc''" "''Ethereum''"]
    by (auto simp: lower_Ethereum)
  from v(1) validations_ethereum have "vd_pattern v = eth_pattern" by auto
  with v(2) inv
  have "validate_wallet_address ''abc'' (Some ''Ethereum'') =
       Inr (Success \<lparr>vr_address = ''abc'', vr_chain = ''Ethereum'', vr_is_valid = False,
              vr_format_description = vd_description v,
              vr_message = ''Invalid address format.''\<rparr>)"
    by simp
  with e show ?thesis by blast
qed

section \<open>The unit converter\<close>

lemma get_chain_known:
  "u \<in> set (keys conversions) \<Longrightarrow>
     get_chain u \<in> {Some ''ethereum'', Some ''bitcoin'', Some ''solana''}"
  by (auto simp: keys_conversions get_chain_def eth_units_def btc_units_def sol_units_def)

lemma conversions_values:
  "map_of conversions u = Some t \<Longrightarrow> t \<in> {Fin 1, Fin (10 ^ 9), Fin (10 ^ 18), Fin (10 ^ 8)}"
  by (auto simp: conversions_def split: if_splits)

lemma fdiv_nonzero: "b \<noteq> 0 \<Longrightarrow> \<exists>r. fdiv x (Fin b) = Inr r"
  by (cases x) auto

lemma fdiv_factor:
  "map_of conversions u = Some t \<Longrightarrow> \<exists>r. fdiv x t = Inr r"
  using conversions_values [of u t] fdiv_nonzero [of _ x] by auto

lemma convert_invalid_unit:
  "lower from_unit \<notin> set (keys conversions) \<or> lower to_unit \<notin> set (keys conversions) \<Longrightarrow>
   convert_crypto_units amount from_unit to_unit =
     Inr (Error ''Invalid unit'' (Some (keys conversions)))"
  by (auto simp: convert_crypto_units_def Let_def)

lemma convert_mismatch:
  "lower from_unit \<in> set (keys conversions) \<Longrightarrow> lower to_unit \<in> set (keys conversions) \<Longrightarrow>
   get_chain (lower from_unit) \<noteq> get_chain (lower to_unit) \<Longrightarrow>
   convert_crypto_units amount from_unit to_unit =
     Inr (Error (''Cannot convert between '' @ format_opt (get_chain (lower from_unit)) @ '' and ''
                   @ format_opt (get_chain (lower to_unit))) None)"
  by (simp add: convert_crypto_units_def Let_def)

lemma convert_success:
  "map_of conversions (lower from_unit) = Some f \<Longrightarrow>
   map_of conversions (lower to_unit) = Some t \<Longrightarrow>
   get_chain (lower from_unit) = get_chain (lower to_unit) \<Longrightarrow>
   fdiv (fmul amount f) t = Inr result \<Longrightarrow>
   convert_crypto_units amount from_unit to_unit =
     Inr (Success \<lparr>cv_input = (amount, from_unit), cv_output = (result, to_unit),
            cv_blockchain = get_chain (lower from_unit)\<rparr>)"
  by (simp add: convert_crypto_units_def Let_def in_keys_iff getitem_def)


text \<open>
  C3. For every amount and every two units of the table whose chain families differ,
  \<open>convert_crypto_units\<close> returns Error with the message
  \<open>"Cannot convert between <family of the source> and <family of the target>"\<close>, and never
  a Success.
\<close>

theorem convert_cross_family_error:
  "lower from_unit \<in> set (keys conversions) \<Longrightarrow> lower to_unit \<in> set (keys conversions) \<Longrightarrow>
   get_chain (lower from_unit) \<noteq> get_chain (lower to_unit) \<Longrightarrow>
   \<exists>from_chain to_chain.
     get_chain (lower from_unit) = Some from_chain \<and> get_chain (lower to_unit) = Some to_chain \<and>
     convert_crypto_units amount from_unit to_unit =
       Inr (Error (''Cannot convert between '' @ from_chain @ '' and '' @ to_chain) None) \<and>
     (\<forall>r. convert_crypto_units amount from_unit to_unit \<noteq> Inr (Success r))"
proof -
  assume k: "lower from_unit \<in> set (keys conversions)" "lower to_unit \<in> set (keys conversions)"
    and ne: "get_chain (lower from_unit) \<noteq> get_chain (lower to_unit)"
  from get_chain_known [OF k(1)] obtain fc where fc: "get_chain (lower from_unit) = Some fc"
    by auto
  from get_chain_known [OF k(2)] obtain tc where tc: "get_chain (lower to_unit) = Some tc"
    by auto
  from convert_mismatch [OF k ne, of amount] fc tc
  have "convert_crypto_units amount from_unit to_unit =
       Inr (Error (''Cannot convert between '' @ fc @ '' and '' @ tc) None)"
    by simp
  with fc tc show ?thesis by simp
qed

lemma lower_eth: "lower ''eth'' = ''eth''" by code_simp
lemma lower_btc: "lower ''btc'' = ''btc''" by code_simp
lemma lower_gwei: "lower ''gwei'' = ''gwei''" by code_simp
lemma lower_ETH: "lower ''ETH'' = ''eth''" by code_simp

theorem convert_cross_family_error_witness:
  "convert_crypto_units (Fin 1) ''eth'' ''btc'' =
     Inr (Error ''Cannot convert between ethereum and bitcoin'' None)"
proof -
  have 1: "lower ''eth'' \<in> set (keys conversions)" by (simp add: lower_eth keys_conversions)
  have 2: "lower ''btc'' \<in> set (keys conversions)" by (simp add: lower_btc keys_conversions)
  have e: "get_chain ''eth'' = Some ''ethereum''" by (simp add: get_chain_def eth_units_def)
  have b: "get_chain ''btc'' = Some ''bitcoin''"
    by (simp add: get_chain_def eth_units_def btc_units_def)
  have 3: "get_chain (lower ''eth'') \<noteq> get_chain (lower ''btc'')"
    by (simp add: lower_eth lower_btc e b)
  from convert_cross_family_error [OF 1 2 3, of "Fin 1"] e b show ?thesis
    by (auto simp: lower_eth lower_btc)
qed


section \<open>No tool raises\<close>

text \<open>
  C9. For every input, each of the five tools returns a dictionary (the \<open>Inr\<close> side:
  neither the \<open>KeyError\<close> of an indexing nor the \<open>ZeroDivisionError\<close> of the division is
  raised), and its status is one of \<open>success\<close>, \<open>not_found\<close> and \<open>error\<close>. The amount
  ranges over all floats, the infinities and NaN included.
\<close>

theorem tools_total:
  "(\<exists>e. get_blockchain_info chain_name = Inr e \<and> status e \<in> {''success'', ''not_found''}) \<and>
   (\<exists>e. validate_wallet_address address chain_arg = Inr e \<and> status e \<in> {''success'', ''error''}) \<and>
   (\<exists>e. explain_gas_fees chain_arg = Inr e \<and> status e \<in> {''success'', ''not_found''}) \<and>
   (\<exists>e. get_smart_contract_template contract_type = Inr e \<and>
        status e \<in> {''success'', ''not_found''}) \<and>
   (\<exists>e. convert_crypto_units amount from_unit to_unit = Inr e \<and>
        status e \<in> {''success'', ''error''})"
proof (intro conjI)
  show "\<exists>e. get_blockchain_info chain_name = Inr e \<and> status e \<in> {''success'', ''not_found''}"
    by (cases "map_of blockchain_data (strip (lower chain_name))")
      (simp_all add: get_blockchain_info_def in_keys_iff getitem_def)
  show "\<exists>e. validate_wallet_address address chain_arg = Inr e \<and> status e \<in> {''success'', ''error''}"
    by (cases "map_of validations (lower (arg_or_default chain_arg ''ethereum''))")
      (simp_all add: validate_unsupported validate_supported)
  show "\<exists>e. explain_gas_fees chain_arg = Inr e \<and> status e \<in> {''success'', ''not_found''}"
    by (cases "map_of gas_info (lower (arg_or_default chain_arg ''ethereum''))")
      (simp_all add: explain_gas_fees_def in_keys_iff getitem_def Let_def)
  show "\<exists>e. get_smart_contract_template contract_type = Inr e \<and>
        status e \<in> {''success'', ''not_found''}"
    by (cases "map_of templates (strip (lower contract_type))")
      (simp_all add: get_smart_contract_template_def in_keys_iff getitem_def)
  show "\<exists>e. convert_crypto_units amount from_unit to_unit = Inr e \<and>
        status e \<in> {''success'', ''error''}"
  proof (cases "lower from_unit \<notin> set (keys conversions) \<or> lower to_unit \<notin> set (keys conversions)")
    case True
    then show ?thesis by (simp add: convert_invalid_unit)
  next
    case False
    then have k: "lower from_unit \<in> set (keys conversions)" "lower to_unit \<in> set (keys conversions)"
      by auto
    show ?thesis
    proof (cases "get_chain (lower from_unit) = get_chain (lower to_unit)")
      case False
      with k show ?thesis by (simp add: convert_mismatch)
    next
      case True
      from k obtain f t where ft: "map_of conversions (lower from_unit) = Some f"
        "map_of conversions (lower to_unit) = Some t"
        by (auto simp: in_keys_iff)
      from fdiv_factor [OF ft(2)] obtain r where "fdiv (fmul amount f) t = Inr r" by blast
      from convert_success [OF ft True this] show ?thesis by simp
    qed
  qed
qed

theorem tools_total_witness:
  "(\<exists>e. get_blockchain_info [CHR 0x00, CHR 0xFF] = Inr e) \<and>
   (\<exists>e. validate_wallet_address [] (Some [CHR 0x0A]) = Inr e) \<and>
   (\<exists>e. explain_gas_fees None = Inr e) \<and>
   (\<exists>e. get_smart_contract_template [] = Inr e) \<and>
   (\<exists>e. convert_crypto_units NaN ''eth'' ''wei'' = Inr e)"
  using tools_total [of "[CHR 0x00, CHR 0xFF]" "[]" "Some [CHR 0x0A]" "[]" NaN "''eth''" "''wei''"]
    tools_total [of "[]" "[]" None "[]" NaN "[]" "[]"]
  by blast

section \<open>Keys with surrounding whitespace\<close>

lemma lower_ETHEREUM_spaces: "lower '' ETHEREUM '' = '' ethereum ''" by code_simp
lemma lower_ETH_spaces: "lower '' ETH '' = '' eth ''" by code_simp

lemma explain_gas_fees_found:
  "map_of gas_info (lower chain) = Some g \<Longrightarrow>
     explain_gas_fees (Some chain) = Inr (Success \<lparr>gr_chain = chain, gr_gas_info = g\<rparr>)"
  by (simp add: explain_gas_fees_def in_keys_iff getitem_def Let_def)

lemma explain_gas_fees_not_found:
  "map_of gas_info (lower chain) = None \<Longrightarrow>
     explain_gas_fees (Some chain) =
       Inr (NotFound (''Gas info not available for '' @ chain) (keys gas_info))"
  by (simp add: explain_gas_fees_def in_keys_iff Let_def)


text \<open>
  C6. The claim: every lookup lower-cases and trims its key, so \<open>" ETHEREUM "\<close> and
  \<open>"ethereum"\<close> give the same results everywhere. \<open>get_blockchain_info\<close> and
  \<open>get_smart_contract_template\<close> call \<open>lower().strip()\<close>; \<open>explain_gas_fees\<close>,
  \<open>validate_wallet_address\<close> and \<open>convert_crypto_units\<close> call \<open>lower()\<close> only. So the
  gas-fee lookup of \<open>" ETHEREUM "\<close> is NotFound where that of \<open>"ethereum"\<close> is a Success,
  the validator answers Error for chain \<open>" ETHEREUM "\<close> and Success for \<open>"ethereum"\<close>, the
  converter answers \<open>Invalid unit\<close> for \<open>" ETH "\<close> and converts \<open>"eth"\<close>, while the chain
  lookup gives the same result for both.
\<close>

theorem untrimmed_key_not_found:
  "explain_gas_fees (Some '' ETHEREUM '') =
     Inr (NotFound ''Gas info not available for  ETHEREUM '' [''ethereum'', ''solana'', ''polygon'']) \<and>
   (\<exists>g. explain_gas_fees (Some ''ethereum'') = Inr (Success g)) \<and>
   validate_wallet_address address (Some '' ETHEREUM '') =
     Inr (Error ''Validation not supported for chain:  ETHEREUM ''
            (Some [''ethereum'', ''bitcoin'', ''solana''])) \<and>
   (\<exists>r. validate_wallet_address address (Some ''ethereum'') = Inr (Success r)) \<and>
   convert_crypto_units amount '' ETH '' ''gwei'' =
     Inr (Error ''Invalid unit'' (Some (keys conversions))) \<and>
   (\<exists>r. convert_crypto_units amount ''eth'' ''gwei'' = Inr (Success r)) \<and>
   get_blockchain_info '' ETHEREUM '' = get_blockchain_info ''ethereum''"
proof (intro conjI)
  have "map_of gas_info '' ethereum '' = None" by (simp add: gas_info_def)
  then show "explain_gas_fees (Some '' ETHEREUM '') =
     Inr (NotFound ''Gas info not available for  ETHEREUM '' [''ethereum'', ''solana'', ''polygon''])"
    using explain_gas_fees_not_found [of "'' ETHEREUM ''"]
    by (simp add: lower_ETHEREUM_spaces keys_gas_info)
  have "\<exists>g. map_of gas_info ''ethereum'' = Some g" by (simp add: gas_info_def)
  then show "\<exists>g. explain_gas_fees (Some ''ethereum'') = Inr (Success g)"
    using explain_gas_fees_found [of "''ethereum''"] by (auto simp: lower_ethereum)
  have "map_of validations '' ethereum '' = None" by (simp add: validations_def)
  then show "validate_wallet_address address (Some '' ETHEREUM '') =
     Inr (Error ''Validation not supported for chain:  ETHEREUM ''
            (Some [''ethereum'', ''bitcoin'', ''solana'']))"
    using validate_unsupported [of "Some '' ETHEREUM ''" address]
    by (simp add: lower_ETHEREUM_spaces keys_validations)
  show "\<exists>r. validate_wallet_address address (Some ''ethereum'') = Inr (Success r)"
    using validations_ethereum validate_supported [of "Some ''ethereum''" _ address]
    by (auto simp: lower_ethereum)
  have "lower '' ETH '' \<notin> set (keys conversions)"
    by (simp add: lower_ETH_spaces keys_conversions)
  then show "convert_crypto_units amount '' ETH '' ''gwei'' =
     Inr (Error ''Invalid unit'' (Some (keys conversions)))"
    by (simp add: convert_invalid_unit)
  have f: "map_of conversions (lower ''eth'') = Some (Fin (10 ^ 18))"
    by (simp add: lower_eth conversions_def)
  have t: "map_of conversions (lower ''gwei'') = Some (Fin (10 ^ 9))"
    by (simp add: lower_gwei conversions_def)
  have c: "get_chain (lower ''eth'') = get_chain (lower ''gwei'')"
    by (simp add: lower_eth lower_gwei get_chain_def eth_units_def)
  from fdiv_factor [OF t] obtain r where "fdiv (fmul amount (Fin (10 ^ 18))) (Fin (10 ^ 9)) = Inr r"
    by blast
  from convert_success [OF f t c this]
  show "\<exists>r. convert_crypto_units amount ''eth'' ''gwei'' = Inr (Success r)" by blast
  show "get_blockchain_info '' ETHEREUM '' = get_blockchain_info ''ethereum''"
    using get_blockchain_info_found [of "'' ETHEREUM ''"] get_blockchain_info_found [of "''ethereum''"]
    by (cases "map_of blockchain_data ''ethereum''")
       (simp_all add: key_ETHEREUM_spaces key_ethereum blockchain_data_def)
qed

theorem untrimmed_key_not_found_witness:
  "explain_gas_fees (Some '' ETHEREUM '') \<noteq> explain_gas_fees (Some ''ethereum'') \<and>
   validate_wallet_address ''0x71C7656EC7ab88b098defB751B7401B5f6d8976F'' (Some '' ETHEREUM '') \<noteq>
     validate_wallet_address ''0x71C7656EC7ab88b098defB751B7401B5f6d8976F'' (Some ''ethereum'') \<and>
   convert_crypto_units (Fin 1) '' ETH '' ''gwei'' \<noteq> convert_crypto_units (Fin 1) ''eth'' ''gwei''"
  using untrimmed_key_not_found [of "''0x71C7656EC7ab88b098defB751B7401B5f6d8976F''" "Fin 1"]
  by auto

section \<open>The two files\<close>

lemma keys_agent_blockchain_data:
  "keys agent_blockchain_data =
     [''ethereum'', ''bitcoin'', ''solana'', ''polygon'', ''binance'', ''avalanche'', ''cardano'']"
  by (simp add: keys_def agent_blockchain_data_def)

lemma keys_agent_validations: "keys agent_validations = keys validations"
  by (simp add: keys_def agent_validations_def validations_def)

lemma keys_agent_gas_info: "keys agent_gas_info = keys gas_info"
  by (simp add: keys_def agent_gas_info_def gas_info_def)

lemma keys_agent_templates: "keys agent_templates = keys templates"
  by (simp add: keys_def agent_templates_def templates_def)

lemma agent_conversions_eq: "agent_conversions = conversions"
  by (simp add: agent_conversions_def conversions_def)

lemma same_keys_None:
  "keys d = keys d' \<Longrightarrow> map_of d k = None \<longleftrightarrow> map_of d' k = None"
  using in_keys_iff [of k d] in_keys_iff [of k d'] by auto

lemma agent_convert_eq_cases:
  "(\<exists>r. convert_crypto_units amount from_unit to_unit = Inr (Success r) \<and>
        agent_convert_crypto_units amount from_unit to_unit = Inr (Success r)) \<or>
   (\<exists>m m' opts. convert_crypto_units amount from_unit to_unit = Inr (Error m opts) \<and>
        agent_convert_crypto_units amount from_unit to_unit = Inr (Error m' opts))"
proof (cases "lower from_unit \<notin> set (keys conversions) \<or> lower to_unit \<notin> set (keys conversions)")
  case True
  then show ?thesis
    by (auto simp: convert_crypto_units_def agent_convert_crypto_units_def agent_conversions_eq Let_def)
next
  case False
  then have k: "lower from_unit \<in> set (keys conversions)" "lower to_unit \<in> set (keys conversions)"
    by auto
  show ?thesis
  proof (cases "get_chain (lower from_unit) = get_chain (lower to_unit)")
    case False
    with k show ?thesis
      by (simp add: convert_crypto_units_def agent_convert_crypto_units_def agent_conversions_eq Let_def)
  next
    case True
    from k obtain f t where ft: "map_of conversions (lower from_unit) = Some f"
      "map_of conversions (lower to_unit) = Some t"
      by (auto simp: in_keys_iff)
    from fdiv_factor [OF ft(2)] obtain r where r: "fdiv (fmul amount f) t = Inr r" by blast
    from k True ft r show ?thesis
      by (simp add: convert_crypto_units_def agent_convert_crypto_units_def agent_conversions_eq
          Let_def getitem_def)
  qed
qed

lemma agent_validations_pattern:
  "map_of validations k = Some v \<Longrightarrow>
     \<exists>v'. map_of agent_validations k = Some v' \<and> vd_pattern v' = vd_pattern v"
  by (auto simp: validations_def agent_validations_def split: if_splits)

lemma agent_validate_supported:
  "map_of agent_validations (lower (arg_or_default chain_arg ''ethereum'')) = Some v \<Longrightarrow>
   agent_validate_wallet_address address chain_arg =
     Inr (Success
       \<lparr>vr_address = address, vr_chain = arg_or_default chain_arg ''ethereum'',
        vr_is_valid = re_match (vd_pattern v) address,
        vr_format_description = vd_description v,
        vr_message = (if re_match (vd_pattern v) address then ''Address format is valid!''
                      else ''Invalid address format.'')\<rparr>)"
  by (simp add: agent_validate_wallet_address_def in_keys_iff getitem_def Let_def)

lemma agent_validate_unsupported:
  "map_of agent_validations (lower (arg_or_default chain_arg ''ethereum'')) = None \<Longrightarrow>
   agent_validate_wallet_address address chain_arg =
     Inr (Error (''Validation not supported for chain: '' @ arg_or_default chain_arg ''ethereum'')
            (Some (keys agent_validations)))"
  by (simp add: agent_validate_wallet_address_def in_keys_iff Let_def)

lemma agent_validate_eq_cases:
  "(\<exists>r d. validate_wallet_address address chain_arg = Inr (Success r) \<and>
        agent_validate_wallet_address address chain_arg =
          Inr (Success (r\<lparr>vr_format_description := d\<rparr>))) \<or>
   (\<exists>m opts. validate_wallet_address address chain_arg = Inr (Error m opts) \<and>
        agent_validate_wallet_address address chain_arg = Inr (Error m opts))"
proof (cases "map_of validations (lower (arg_or_default chain_arg ''ethereum''))")
  case None
  then have "map_of agent_validations (lower (arg_or_default chain_arg ''ethereum'')) = None"
    using same_keys_None [OF keys_agent_validations] by simp
  with None show ?thesis
    by (simp add: validate_unsupported agent_validate_unsupported keys_agent_validations)
next
  case (Some v)
  from agent_validations_pattern [OF Some] obtain v' where
    v': "map_of agent_validations (lower (arg_or_default chain_arg ''ethereum'')) = Some v'"
      "vd_pattern v' = vd_pattern v" by blast
  show ?thesis
    using validate_supported [OF Some, of address] agent_validate_supported [OF v'(1), of address] v'(2)
    by auto
qed

lemma outcome_gas:
  "outcome (explain_gas_fees chain_arg) = outcome (agent_explain_gas_fees chain_arg)"
proof (cases "map_of gas_info (lower (arg_or_default chain_arg ''ethereum''))")
  case None
  then have "map_of agent_gas_info (lower (arg_or_default chain_arg ''ethereum'')) = None"
    using same_keys_None [OF keys_agent_gas_info] by simp
  with None show ?thesis
    by (simp add: outcome_def explain_gas_fees_def agent_explain_gas_fees_def in_keys_iff Let_def)
next
  case (Some g)
  then obtain g' where "map_of agent_gas_info (lower (arg_or_default chain_arg ''ethereum'')) = Some g'"
    using same_keys_None [OF keys_agent_gas_info, of "lower (arg_or_default chain_arg ''ethereum'')"]
    by auto
  with Some show ?thesis
    by (simp add: outcome_def explain_gas_fees_def agent_explain_gas_fees_def in_keys_iff Let_def
        getitem_def)
qed

lemma outcome_template:
  "outcome (get_smart_contract_template contract_type) =
   outcome (agent_get_smart_contract_template contract_type)"
proof (cases "map_of templates (strip (lower contract_type))")
  case None
  then have "map_of agent_templates (strip (lower contract_type)) = None"
    using same_keys_None [OF keys_agent_templates] by simp
  with None show ?thesis
    by (simp add: outcome_def get_smart_contract_template_def agent_get_smart_contract_template_def
        in_keys_iff)
next
  case (Some g)
  then obtain g' where "map_of agent_templates (strip (lower contract_type)) = Some g'"
    using same_keys_None [OF keys_agent_templates, of "strip (lower contract_type)"]
    by auto
  with Some show ?thesis
    by (simp add: outcome_def get_smart_contract_template_def agent_get_smart_contract_template_def
        in_keys_iff getitem_def)
qed

lemma outcome_chain:
  assumes "strip (lower chain_name) \<noteq> ''binance''"
  shows "outcome (get_blockchain_info chain_name) = outcome (agent_get_blockchain_info chain_name)"
proof -
  let ?k = "strip (lower chain_name)"
  have "?k \<in> set (keys blockchain_data) \<longleftrightarrow> ?k \<in> set (keys agent_blockchain_data)"
    using assms by (auto simp: keys_blockchain_data keys_agent_blockchain_data)
  then have iff: "map_of blockchain_data ?k = None \<longleftrightarrow> map_of agent_blockchain_data ?k = None"
    unfolding in_keys_iff by blast
  show ?thesis
  proof (cases "map_of blockchain_data ?k")
    case None
    with iff show ?thesis
      by (simp add: outcome_def get_blockchain_info_def agent_get_blockchain_info_def in_keys_iff)
  next
    case (Some r)
    with iff obtain r' where "map_of agent_blockchain_data ?k = Some r'" by auto
    with Some show ?thesis
      by (simp add: outcome_def get_blockchain_info_def agent_get_blockchain_info_def in_keys_iff
          getitem_def)
  qed
qed

lemma key_binance: "strip (lower ''binance'') = ''binance''" by code_simp
lemma key_erc20: "strip (lower ''erc20'') = ''erc20''" by code_simp


text \<open>
  C10, as amended. For every input: the two \<open>get_blockchain_info\<close> return the same status
  unless the key is \<open>binance\<close>, which only the table of \<open>agent.py\<close> holds; the two
  \<open>validate_wallet_address\<close> return the same Error, or Success dictionaries that differ at
  most in the format description; the two \<open>explain_gas_fees\<close> and the two
  \<open>get_smart_contract_template\<close> return the same status; the two \<open>convert_crypto_units\<close>
  return the same Success dictionary, or Errors with the same list of units that differ at
  most in the message.
\<close>

theorem app_agent_agreement:
  "(strip (lower chain_name) \<noteq> ''binance'' \<longrightarrow>
      outcome (get_blockchain_info chain_name) = outcome (agent_get_blockchain_info chain_name)) \<and>
   ((\<exists>r d. validate_wallet_address address chain_arg = Inr (Success r) \<and>
        agent_validate_wallet_address address chain_arg =
          Inr (Success (r\<lparr>vr_format_description := d\<rparr>))) \<or>
    (\<exists>m opts. validate_wallet_address address chain_arg = Inr (Error m opts) \<and>
        agent_validate_wallet_address address chain_arg = Inr (Error m opts))) \<and>
   outcome (explain_gas_fees chain_arg) = outcome (agent_explain_gas_fees chain_arg) \<and>
   outcome (get_smart_contract_template contract_type) =
     outcome (agent_get_smart_contract_template contract_type) \<and>
   ((\<exists>r. convert_crypto_units amount from_unit to_unit = Inr (Success r) \<and>
        agent_convert_crypto_units amount from_unit to_unit = Inr (Success r)) \<or>
    (\<exists>m m' opts. convert_crypto_units amount from_unit to_unit = Inr (Error m opts) \<and>
        agent_convert_crypto_units amount from_unit to_unit = Inr (Error m' opts)))"
  using outcome_chain agent_validate_eq_cases outcome_gas outcome_template agent_convert_eq_cases
  by blast

theorem app_agent_agreement_witness:
  "outcome (get_blockchain_info '' Solana '') = outcome (agent_get_blockchain_info '' Solana '') \<and>
   outcome (get_smart_contract_template ''erc20'') =
     outcome (agent_get_smart_contract_template ''erc20'') \<and>
   outcome (explain_gas_fees None) = outcome (agent_explain_gas_fees None)"
proof -
  have "strip (lower '' Solana '') \<noteq> ''binance''" by code_simp
  with app_agent_agreement [of "'' Solana ''" "[]" None "''erc20''" "Fin 1" "[]" "[]"]
  show ?thesis by blast
qed

text \<open>
  C10 as stated fails for each of the five functions: the tables and the messages of the
  two files differ.
\<close>

theorem app_agent_differ:
  "get_blockchain_info ''binance'' \<noteq> agent_get_blockchain_info ''binance'' \<and>
   validate_wallet_address ''abc'' None \<noteq> agent_validate_wallet_address ''abc'' None \<and>
   explain_gas_fees (Some ''bitcoin'') \<noteq> agent_explain_gas_fees (Some ''bitcoin'') \<and>
   get_smart_contract_template ''erc20'' \<noteq> agent_get_smart_contract_template ''erc20'' \<and>
   convert_crypto_units (Fin 1) ''eth'' ''btc'' \<noteq> agent_convert_crypto_units (Fin 1) ''eth'' ''btc''"
proof (intro conjI)
  have "map_of blockchain_data ''binance'' = None" by (simp add: blockchain_data_def)
  moreover have "\<exists>r. map_of agent_blockchain_data ''binance'' = Some r"
    by (simp add: agent_blockchain_data_def)
  ultimately show "get_blockchain_info ''binance'' \<noteq> agent_get_blockchain_info ''binance''"
    by (auto simp: get_blockchain_info_def agent_get_blockchain_info_def key_binance in_keys_iff
        getitem_def)
next
  obtain v where v: "map_of validations ''ethereum'' = Some v"
    "vd_description v = ''Ethereum addresses start with '' @ [CHR 0x27] @ ''0x'' @ [CHR 0x27] @
        '' followed by 40 hex characters''"
    by (simp add: validations_def)
  obtain v' where v': "map_of agent_validations ''ethereum'' = Some v'"
    "vd_description v' = ''Ethereum addresses start with '' @ [CHR 0x27] @ ''0x'' @ [CHR 0x27] @
        '' followed by 40 hexadecimal characters''"
    by (simp add: agent_validations_def)
  show "validate_wallet_address ''abc'' None \<noteq> agent_validate_wallet_address ''abc'' None"
    using validate_supported [of None v "''abc''"] agent_validate_supported [of None v' "''abc''"] v v'
    by (simp add: lower_ethereum)
next
  have "map_of gas_info ''bitcoin'' = None" by (simp add: gas_info_def)
  moreover have "map_of agent_gas_info ''bitcoin'' = None" by (simp add: agent_gas_info_def)
  ultimately show "explain_gas_fees (Some ''bitcoin'') \<noteq> agent_explain_gas_fees (Some ''bitcoin'')"
    by (simp add: explain_gas_fees_def agent_explain_gas_fees_def lower_bitcoin in_keys_iff Let_def)
next
  obtain t where t: "map_of templates ''erc20'' = Some t" "ct_explanation t = None"
    by (simp add: templates_def)
  obtain t' where t': "map_of agent_templates ''erc20'' = Some t'" "ct_explanation t' \<noteq> None"
    by (simp add: agent_templates_def)
  from t t' have "t \<noteq> t'" by auto
  with t(1) t'(1)
  show "get_smart_contract_template ''erc20'' \<noteq> agent_get_smart_contract_template ''erc20''"
    by (simp add: get_smart_contract_template_def agent_get_smart_contract_template_def key_erc20
        in_keys_iff getitem_def)
next
  have e: "get_chain ''eth'' = Some ''ethereum''" by (simp add: get_chain_def eth_units_def)
  have b: "get_chain ''btc'' = Some ''bitcoin''"
    by (simp add: get_chain_def eth_units_def btc_units_def)
  show "convert_crypto_units (Fin 1) ''eth'' ''btc'' \<noteq>
        agent_convert_crypto_units (Fin 1) ''eth'' ''btc''"
    by (simp add: convert_crypto_units_def agent_convert_crypto_units_def agent_conversions_eq
        lower_eth lower_btc keys_conversions e b Let_def)
qed

section \<open>Rounding to binary64\<close>

text \<open>\<open>ilog2\<close> is the binary exponent: for \<open>q > 0\<close>, \<open>2 ^ ilog2 q \<le> q < 2 ^ (ilog2 q + 1)\<close>.\<close>

lemma ilog2_ge1:
  fixes q :: rat
  assumes "1 \<le> q"
  shows "2 powi (ilog2 q) \<le> q \<and> q < 2 powi (ilog2 q + 1)"
proof -
  let ?n = "\<lfloor>q\<rfloor>"
  have n: "0 < ?n" using assms by simp
  from bitlen_bounds [OF n] have b: "2 ^ nat (bitlen ?n - 1) \<le> ?n" "?n < 2 ^ nat (bitlen ?n)"
    by auto
  have bl: "1 \<le> bitlen ?n" using n by (simp add: bitlen_alt_def)
  have e: "ilog2 q = bitlen ?n - 1" using assms by (simp add: ilog2_def)
  have "(2::rat) powi (bitlen ?n - 1) = 2 ^ nat (bitlen ?n - 1)"
    using bl by (simp add: power_int_def)
  also have "\<dots> = of_int (2 ^ nat (bitlen ?n - 1))" by simp
  also have "\<dots> \<le> of_int ?n" using b(1) by (simp only: of_int_le_iff)
  also have "\<dots> \<le> q" by simp
  finally have lo: "2 powi (ilog2 q) \<le> q" by (simp add: e)
  have "?n + 1 \<le> 2 ^ nat (bitlen ?n)" using b(2) by simp
  then have "(of_int (?n + 1) :: rat) \<le> of_int (2 ^ nat (bitlen ?n))"
    by (simp only: of_int_le_iff)
  moreover have "q < of_int (?n + 1)" by linarith
  ultimately have "q < of_int (2 ^ nat (bitlen ?n))" by linarith
  also have "\<dots> = 2 powi (bitlen ?n)" using bl by (simp add: power_int_def)
  finally have "q < 2 powi (ilog2 q + 1)" by (simp add: e)
  with lo show ?thesis ..
qed

lemma ilog2_lt1:
  fixes q :: rat
  assumes "0 < q" "q < 1"
  shows "2 powi (ilog2 q) \<le> q \<and> q < 2 powi (ilog2 q + 1)"
proof -
  let ?c = "\<lceil>1 / q\<rceil>"
  let ?n = "bitlen (?c - 1)"
  have inv: "1 < 1 / q" using assms by simp
  then have c2: "2 \<le> ?c" by linarith
  then have c1: "0 < ?c - 1" by simp
  from bitlen_bounds [OF c1] have b: "2 ^ nat (?n - 1) \<le> ?c - 1" "?c - 1 < 2 ^ nat ?n"
    by auto
  have bl: "1 \<le> ?n" using c1 by (simp add: bitlen_alt_def)
  have e: "ilog2 q = - ?n" using assms by (simp add: ilog2_def)
  have "?c \<le> 2 ^ nat ?n" using b(2) by simp
  then have "(of_int ?c :: rat) \<le> of_int (2 ^ nat ?n)" by (simp only: of_int_le_iff)
  moreover have "1 / q \<le> of_int ?c" by simp
  ultimately have "1 / q \<le> of_int (2 ^ nat ?n)" by (rule order_trans [rotated])
  also have "(of_int (2 ^ nat ?n) :: rat) = 2 powi ?n" using bl by (simp add: power_int_def)
  finally have "1 / q \<le> 2 powi ?n" .
  then have "1 / (2 powi ?n) \<le> q"
    using assms(1) by (simp add: field_simps)
  then have lo: "2 powi (ilog2 q) \<le> q"
    unfolding e by (simp only: power_int_minus_divide)
  have "of_int (?c - 1) < 1 / q" by linarith
  moreover have "(of_int (2 ^ nat (?n - 1)) :: rat) \<le> of_int (?c - 1)"
    using b(1) by (simp only: of_int_le_iff)
  ultimately have "(of_int (2 ^ nat (?n - 1)) :: rat) < 1 / q" by (rule le_less_trans [rotated])
  moreover have "(of_int (2 ^ nat (?n - 1)) :: rat) = 2 powi (?n - 1)"
    using bl by (simp add: power_int_def)
  ultimately have "(2::rat) powi (?n - 1) < 1 / q" by simp
  then have "q < 1 / (2 powi (?n - 1))"
    using assms(1) by (simp add: field_simps)
  also have "\<dots> = 2 powi (- (?n - 1))" by (simp only: power_int_minus_divide)
  also have "- (?n - 1) = ilog2 q + 1" by (simp add: e)
  finally have "q < 2 powi (ilog2 q + 1)" .
  with lo show ?thesis ..
qed

lemma ilog2_bounds:
  fixes q :: rat
  assumes "0 < q"
  shows "2 powi (ilog2 q) \<le> q" "q < 2 powi (ilog2 q + 1)"
  using ilog2_ge1 [of q] ilog2_lt1 [of q] assms by (cases "1 \<le> q"; simp)+

lemma pow2_sandwich_unique:
  fixes q :: rat
  assumes "2 powi e \<le> q" "q < 2 powi (e + 1)" "2 powi e' \<le> q" "q < 2 powi (e' + 1)"
  shows "e = e'"
proof -
  have "(2::rat) powi e < 2 powi (e' + 1)" using assms by linarith
  then have 1: "e < e' + 1"
    by (metis (no_types) one_less_numeral_iff power_int_increasing
        order.strict_implies_order semiring_norm(76) not_le)
  have "(2::rat) powi e' < 2 powi (e + 1)" using assms by linarith
  then have 2: "e' < e + 1"
    by (metis (no_types) one_less_numeral_iff power_int_increasing
        order.strict_implies_order semiring_norm(76) not_le)
  from 1 2 show ?thesis by simp
qed

lemma ilog2_unique:
  fixes q :: rat
  assumes "2 powi e \<le> q" "q < 2 powi (e + 1)"
  shows "ilog2 q = e"
proof -
  have "0 < q" using assms(1) by (meson less_le_trans zero_less_numeral zero_less_power_int)
  from ilog2_bounds [OF this] assms show ?thesis
    using pow2_sandwich_unique by blast
qed

text \<open>
  Rounding moves a value by at most half a grid step; in the normal range, that is a
  relative error of at most \<open>2 ^ -53\<close>, and the result is finite.
\<close>

lemma round_half_even_error: "\<bar>of_int (round_half_even x) - x\<bar> \<le> 1 / 2"
proof -
  have f: "0 \<le> x - of_int \<lfloor>x\<rfloor>" "x - of_int \<lfloor>x\<rfloor> < 1" by linarith+
  show ?thesis
    unfolding round_half_even_def Let_def abs_le_iff
    using f by (simp del: of_int_floor_le; linarith)
qed

lemma round_half_even_of_int [simp]: "round_half_even (of_int n) = n"
  by (simp add: round_half_even_def)

lemma round_half_even_numeral [simp]: "round_half_even (numeral n) = numeral n"
  using round_half_even_of_int [of "numeral n"] by simp

lemma round_to_grid_error:
  fixes q :: rat
  shows "\<bar>of_int (round_half_even (q / 2 powi e)) * 2 powi e - q\<bar> \<le> 2 powi e / 2"
proof -
  have p: "(0::rat) < 2 powi e" by simp
  have "of_int (round_half_even (q / 2 powi e)) * 2 powi e - q =
        (of_int (round_half_even (q / 2 powi e)) - q / 2 powi e) * 2 powi e"
    using p by (simp add: field_simps)
  then have "\<bar>of_int (round_half_even (q / 2 powi e)) * 2 powi e - q\<bar> =
        \<bar>of_int (round_half_even (q / 2 powi e)) - q / 2 powi e\<bar> * 2 powi e"
    using p by (simp add: abs_mult)
  also have "\<dots> \<le> (1 / 2) * 2 powi e"
    using round_half_even_error [of "q / 2 powi e"] p by (intro mult_right_mono) auto
  finally show ?thesis by simp
qed

lemma round64_normal:
  fixes q :: rat
  assumes lo: "2 powi (- 1022) \<le> \<bar>q\<bar>" and hi: "\<bar>q\<bar> \<le> 2 ^ 1023"
  shows "\<exists>r. round64 q = Fin r \<and> \<bar>r - q\<bar> \<le> \<bar>q\<bar> / 2 ^ 53"
proof -
  have pos: "0 < \<bar>q\<bar>" using lo by (meson less_le_trans zero_less_numeral zero_less_power_int)
  then have q0: "q \<noteq> 0" by simp
  let ?L = "ilog2 \<bar>q\<bar>"
  from ilog2_bounds [OF pos] have L: "2 powi ?L \<le> \<bar>q\<bar>" "\<bar>q\<bar> < 2 powi (?L + 1)" by auto
  have "(2::rat) powi (- 1022) < 2 powi (?L + 1)" using lo L(2) by linarith
  then have "- 1022 < ?L + 1"
    by (metis (no_types) one_less_numeral_iff power_int_increasing
        order.strict_implies_order semiring_norm(76) not_le)
  then have e: "max (?L - 52) (- 1074) = ?L - 52" by simp
  let ?r = "of_int (round_half_even (q / 2 powi (?L - 52))) * 2 powi (?L - 52) :: rat"
  have "\<bar>?r - q\<bar> \<le> 2 powi (?L - 52) / 2" by (rule round_to_grid_error)
  also have "(2::rat) powi (?L - 52) / 2 = 2 powi ?L / 2 ^ 53"
    by (simp add: power_int_diff)
  also have "\<dots> \<le> \<bar>q\<bar> / 2 ^ 53" using L(1) by (simp add: divide_right_mono)
  finally have err: "\<bar>?r - q\<bar> \<le> \<bar>q\<bar> / 2 ^ 53" .
  have "\<bar>?r\<bar> \<le> \<bar>q\<bar> + \<bar>?r - q\<bar>" by linarith
  also have "\<dots> \<le> \<bar>q\<bar> + \<bar>q\<bar> / 2 ^ 53" using err by simp
  also have "\<dots> = \<bar>q\<bar> * (1 + 1 / 2 ^ 53)" by (simp add: field_simps)
  also have "\<dots> \<le> 2 ^ 1023 * (1 + 1 / 2 ^ 53)" using hi by (intro mult_right_mono) auto
  also have "\<dots> < 2 ^ 1024" by simp
  finally have "\<not> 2 ^ 1024 \<le> \<bar>?r\<bar>" by simp
  then have "round64 q = Fin ?r"
    using q0 e by (simp add: round64_def Let_def)
  with err show ?thesis by blast
qed

lemma round64_at:
  fixes q :: rat
  assumes "2 powi L \<le> \<bar>q\<bar>" "\<bar>q\<bar> < 2 powi (L + 1)"
  shows "round64 q =
     (let e = max (L - 52) (- 1074);
          r = of_int (round_half_even (q / 2 powi e)) * 2 powi e
      in if 2 ^ 1024 \<le> \<bar>r\<bar> then (if 0 < q then PInf else NInf) else Fin r)"
proof -
  have "0 < \<bar>q\<bar>" using assms(1) by (meson less_le_trans zero_less_numeral zero_less_power_int)
  then have "q \<noteq> 0" by simp
  moreover have "ilog2 \<bar>q\<bar> = L" using assms by (rule ilog2_unique)
  ultimately show ?thesis by (simp add: round64_def)
qed

lemma round64_0 [simp]: "round64 0 = Fin 0"
  by (simp add: round64_def)

lemma round64_1e18: "round64 (10 ^ 18) = Fin (10 ^ 18)"
  by (subst round64_at [where L = 59]) simp_all

lemma round64_1e9: "round64 (10 ^ 9) = Fin (10 ^ 9)"
  by (subst round64_at [where L = 29]) simp_all

lemma round64_21e12: "round64 21000000000000 = Fin 21000000000000"
  by (subst round64_at [where L = 44]) simp_all

lemma round64_overflow: "round64 (2 ^ 1000 * 10 ^ 18) = PInf"
  by (subst round64_at [where L = 1059]) simp_all

text \<open>Relative errors compose, and four roundings keep the round trip within \<open>2 ^ -50\<close>.\<close>

lemma rel_compose:
  fixes x y z k1 k2 :: rat
  assumes xy: "\<bar>x - y\<bar> \<le> k1 * \<bar>y\<bar>" and yz: "\<bar>y - z\<bar> \<le> k2 * \<bar>z\<bar>" and k1: "0 \<le> k1"
  shows "\<bar>x - z\<bar> \<le> ((1 + k2) * (1 + k1) - 1) * \<bar>z\<bar>"
proof -
  have "\<bar>y\<bar> \<le> \<bar>z\<bar> + \<bar>y - z\<bar>" by linarith
  also have "\<dots> \<le> \<bar>z\<bar> + k2 * \<bar>z\<bar>" using yz by simp
  finally have y: "\<bar>y\<bar> \<le> (1 + k2) * \<bar>z\<bar>" by (simp add: algebra_simps)
  have "\<bar>x - z\<bar> \<le> \<bar>x - y\<bar> + \<bar>y - z\<bar>" by linarith
  also have "\<dots> \<le> k1 * \<bar>y\<bar> + k2 * \<bar>z\<bar>" using xy yz by linarith
  also have "\<dots> \<le> k1 * ((1 + k2) * \<bar>z\<bar>) + k2 * \<bar>z\<bar>"
    using y k1 by (simp add: mult_left_mono)
  also have "\<dots> = ((1 + k2) * (1 + k1) - 1) * \<bar>z\<bar>" by (simp add: algebra_simps)
  finally show ?thesis .
qed

text \<open>One rounding of a value q that approximates an exact value E of moderate size.\<close>

lemma round_step:
  fixes q E k :: rat
  assumes rel: "\<bar>q - E\<bar> \<le> k * \<bar>E\<bar>" and k: "0 \<le> k" "k \<le> 1 / 2"
    and lo: "2 powi (- 1000) \<le> \<bar>E\<bar>" and hi: "\<bar>E\<bar> \<le> 2 ^ 1000"
  shows "\<exists>r. round64 q = Fin r \<and> \<bar>r - E\<bar> \<le> ((1 + k) * (1 + ulp_half) - 1) * \<bar>E\<bar>"
proof -
  have "\<bar>q\<bar> \<le> \<bar>E\<bar> + \<bar>q - E\<bar>" by linarith
  also have "\<dots> \<le> \<bar>E\<bar> + k * \<bar>E\<bar>" using rel by simp
  also have "\<dots> \<le> \<bar>E\<bar> + (1 / 2) * \<bar>E\<bar>"
    using k(2) by (intro add_left_mono mult_right_mono) auto
  also have "\<dots> \<le> 2 * \<bar>E\<bar>" by simp
  also have "\<dots> \<le> 2 * 2 ^ 1000" using hi by simp
  also have "\<dots> \<le> (2 ^ 1023 :: rat)" by simp
  finally have qhi: "\<bar>q\<bar> \<le> 2 ^ 1023" .
  have "k * \<bar>E\<bar> \<le> (1 / 2) * \<bar>E\<bar>" using k(2) by (intro mult_right_mono) auto
  then have "\<bar>q - E\<bar> \<le> \<bar>E\<bar> / 2" using rel by simp
  then have "\<bar>E\<bar> / 2 \<le> \<bar>q\<bar>" by linarith
  moreover have "(2::rat) powi (- 1000) / 2 \<le> \<bar>E\<bar> / 2" using lo by simp
  moreover have "(2::rat) powi (- 1022) \<le> 2 powi (- 1000) / 2" by simp
  ultimately have qlo: "2 powi (- 1022) \<le> \<bar>q\<bar>" by linarith
  from round64_normal [OF qlo qhi] obtain r where r: "round64 q = Fin r"
    "\<bar>r - q\<bar> \<le> \<bar>q\<bar> / 2 ^ 53" by blast
  from r(2) have "\<bar>r - q\<bar> \<le> ulp_half * \<bar>q\<bar>" by (simp add: ulp_half_def)
  from rel_compose [OF this rel] have "\<bar>r - E\<bar> \<le> ((1 + k) * (1 + ulp_half) - 1) * \<bar>E\<bar>"
    by (simp add: ulp_half_def)
  with r(1) show ?thesis by blast
qed

text \<open>
  The round trip: multiply by f1, divide by f2, multiply by f2, divide by f1,
  each operation rounded.
\<close>

lemma round_trip_values:
  fixes a f1 f2 :: rat
  assumes a: "2 powi (- 900) \<le> \<bar>a\<bar>" "\<bar>a\<bar> \<le> 2 ^ 900"
    and f1: "1 \<le> f1" "f1 \<le> 2 ^ 60" and f2: "1 \<le> f2" "f2 \<le> 2 ^ 60"
  shows "\<exists>p1 o1 p2 r. round64 (a * f1) = Fin p1 \<and> round64 (p1 / f2) = Fin o1 \<and>
           round64 (o1 * f2) = Fin p2 \<and> round64 (p2 / f1) = Fin r \<and>
           \<bar>r - a\<bar> \<le> \<bar>a\<bar> / 2 ^ 50"
proof -
  let ?u = ulp_half
  have f1p: "0 < f1" and f2p: "0 < f2" using f1 f2 by linarith+
  have af1: "\<bar>a * f1\<bar> = \<bar>a\<bar> * f1" using f1p by (simp add: abs_mult)
  have E1lo: "2 powi (- 1000) \<le> \<bar>a * f1\<bar>"
  proof -
    have "(2::rat) powi (- 1000) \<le> 2 powi (- 900)" by simp
    also have "\<dots> \<le> \<bar>a\<bar>" using a(1) .
    also have "\<bar>a\<bar> \<le> \<bar>a\<bar> * f1" using f1(1) by (simp add: mult_le_cancel_left1)
    finally show ?thesis unfolding af1 .
  qed
  have E1hi: "\<bar>a * f1\<bar> \<le> 2 ^ 1000"
  proof -
    have "\<bar>a\<bar> * f1 \<le> 2 ^ 900 * 2 ^ 60" using a(2) f1 f1p by (intro mult_mono) auto
    also have "\<dots> \<le> (2 ^ 1000 :: rat)" by simp
    finally show ?thesis unfolding af1 .
  qed
  have E2: "\<bar>a * f1 / f2\<bar> = \<bar>a\<bar> * f1 / f2" using f1p f2p by (simp add: abs_mult)
  have E2lo: "2 powi (- 1000) \<le> \<bar>a * f1 / f2\<bar>"
  proof -
    have "(2::rat) powi (- 1000) \<le> 2 powi (- 900) / 2 ^ 60" by simp
    also have "\<dots> \<le> \<bar>a\<bar> / 2 ^ 60" using a(1) by (simp add: divide_right_mono)
    also have "\<dots> \<le> \<bar>a\<bar> / f2" using f2 f2p by (intro divide_left_mono) auto
    also have "\<dots> \<le> \<bar>a\<bar> * f1 / f2"
    proof -
      have "\<bar>a\<bar> * 1 \<le> \<bar>a\<bar> * f1" using f1(1) by (intro mult_left_mono) auto
      then show ?thesis using f2p by (simp add: divide_right_mono)
    qed
    finally show ?thesis unfolding E2 .
  qed
  have E2hi: "\<bar>a * f1 / f2\<bar> \<le> 2 ^ 1000"
  proof -
    have "0 \<le> \<bar>a\<bar> * f1" using f1p by simp
    then have "\<bar>a\<bar> * f1 / f2 \<le> \<bar>a\<bar> * f1 / 1" using f2 by (intro divide_left_mono) auto
    also have "\<dots> \<le> 2 ^ 1000" using E1hi unfolding af1 by simp
    finally show ?thesis unfolding E2 .
  qed
  have E4lo: "2 powi (- 1000) \<le> \<bar>a\<bar>"
  proof -
    have "(2::rat) powi (- 1000) \<le> 2 powi (- 900)" by simp
    with a(1) show ?thesis by linarith
  qed
  have E4hi: "\<bar>a\<bar> \<le> 2 ^ 1000"
  proof -
    have "(2 ^ 900 :: rat) \<le> 2 ^ 1000" by simp
    with a(2) show ?thesis by linarith
  qed
  have u0: "0 \<le> ?u" by (simp add: ulp_half_def)
  let ?k1 = "(1 + 0) * (1 + ?u) - 1"
  let ?k2 = "(1 + ?k1) * (1 + ?u) - 1"
  let ?k3 = "(1 + ?k2) * (1 + ?u) - 1"
  let ?k4 = "(1 + ?k3) * (1 + ?u) - 1"
  have ks: "0 \<le> ?k1" "?k1 \<le> 1 / 2" "0 \<le> ?k2" "?k2 \<le> 1 / 2" "0 \<le> ?k3" "?k3 \<le> 1 / 2"
    "?k4 \<le> 1 / 2 ^ 50"
    by (simp_all add: ulp_half_def)
  \<comment> \<open>first product\<close>
  have "\<bar>a * f1 - a * f1\<bar> \<le> 0 * \<bar>a * f1\<bar>" by simp
  from round_step [OF this _ _ E1lo E1hi]
  obtain p1 where p1: "round64 (a * f1) = Fin p1" "\<bar>p1 - a * f1\<bar> \<le> ?k1 * \<bar>a * f1\<bar>"
    by auto
  \<comment> \<open>first quotient\<close>
  have "\<bar>p1 / f2 - a * f1 / f2\<bar> = \<bar>p1 - a * f1\<bar> / f2"
    using f2p by (simp add: diff_divide_distrib [symmetric])
  also have "\<dots> \<le> ?k1 * \<bar>a * f1\<bar> / f2"
    by (rule divide_right_mono [OF p1(2)]) (use f2p in simp)
  also have "\<dots> = ?k1 * \<bar>a * f1 / f2\<bar>" using f2p by simp
  finally have "\<bar>p1 / f2 - a * f1 / f2\<bar> \<le> ?k1 * \<bar>a * f1 / f2\<bar>" .
  from round_step [OF this ks(1) ks(2) E2lo E2hi]
  obtain o1 where o1: "round64 (p1 / f2) = Fin o1" "\<bar>o1 - a * f1 / f2\<bar> \<le> ?k2 * \<bar>a * f1 / f2\<bar>"
    by auto
  \<comment> \<open>second product\<close>
  have "\<bar>o1 * f2 - a * f1\<bar> = \<bar>o1 - a * f1 / f2\<bar> * f2"
  proof -
    have "o1 * f2 - a * f1 = (o1 - a * f1 / f2) * f2" using f2p by (simp add: field_simps)
    then show ?thesis using f2p by (simp add: abs_mult)
  qed
  also have "\<dots> \<le> ?k2 * \<bar>a * f1 / f2\<bar> * f2"
    by (rule mult_right_mono [OF o1(2)]) (use f2p in simp)
  also have "\<dots> = ?k2 * \<bar>a * f1\<bar>" using f2p by simp
  finally have "\<bar>o1 * f2 - a * f1\<bar> \<le> ?k2 * \<bar>a * f1\<bar>" .
  from round_step [OF this ks(3) ks(4) E1lo E1hi]
  obtain p2 where p2: "round64 (o1 * f2) = Fin p2" "\<bar>p2 - a * f1\<bar> \<le> ?k3 * \<bar>a * f1\<bar>"
    by auto
  \<comment> \<open>second quotient\<close>
  have "\<bar>p2 / f1 - a\<bar> = \<bar>p2 - a * f1\<bar> / f1"
  proof -
    have "p2 / f1 - a = (p2 - a * f1) / f1" using f1p by (simp add: field_simps)
    then show ?thesis using f1p by simp
  qed
  also have "\<dots> \<le> ?k3 * \<bar>a * f1\<bar> / f1"
    by (rule divide_right_mono [OF p2(2)]) (use f1p in simp)
  also have "\<dots> = ?k3 * \<bar>a\<bar>" using f1p by (simp add: abs_mult)
  finally have "\<bar>p2 / f1 - a\<bar> \<le> ?k3 * \<bar>a\<bar>" .
  from round_step [OF this ks(5) ks(6) E4lo E4hi]
  obtain r where r: "round64 (p2 / f1) = Fin r" "\<bar>r - a\<bar> \<le> ?k4 * \<bar>a\<bar>"
    by auto
  have "?k4 * \<bar>a\<bar> \<le> (1 / 2 ^ 50) * \<bar>a\<bar>" using ks(7) by (intro mult_right_mono) auto
  with r(2) have "\<bar>r - a\<bar> \<le> \<bar>a\<bar> / 2 ^ 50" by simp
  with p1(1) o1(1) p2(1) r(1) show ?thesis by blast
qed

section \<open>Conversions within one family\<close>

lemma conversions_factor:
  "map_of conversions u = Some t \<Longrightarrow> \<exists>f. t = Fin f \<and> 1 \<le> f \<and> f \<le> 2 ^ 60"
  using conversions_values [of u t] by auto

lemma get_chain_families:
  "map (\<lambda>u. (u, get_chain u)) (keys conversions) =
     [(''wei'', Some ''ethereum''), (''gwei'', Some ''ethereum''), (''eth'', Some ''ethereum''),
      (''ether'', Some ''ethereum''),
      (''satoshi'', Some ''bitcoin''), (''sat'', Some ''bitcoin''), (''btc'', Some ''bitcoin''),
      (''bitcoin'', Some ''bitcoin''),
      (''lamport'', Some ''solana''), (''lamports'', Some ''solana''), (''sol'', Some ''solana''),
      (''solana'', Some ''solana'')]"
  by (simp add: keys_conversions get_chain_def eth_units_def btc_units_def sol_units_def)

lemma fmul_1_1e18: "fmul (Fin 1) (Fin (10 ^ 18)) = Fin (10 ^ 18)"
  using round64_1e18 by simp

lemma fdiv_1e18_1e9: "fdiv (Fin (10 ^ 18)) (Fin (10 ^ 9)) = Inr (Fin (10 ^ 9))"
  using round64_1e9 by simp

lemma fmul_21000_1e9: "fmul (Fin 21000) (Fin (10 ^ 9)) = Fin 21000000000000"
  using round64_21e12 by simp

lemma fdiv_21e12_1e18: "fdiv (Fin 21000000000000) (Fin (10 ^ 18)) = Inr (round64 (21 / 1000000))"
  by simp

lemma fmul_overflow: "fmul (Fin (2 ^ 1000)) (Fin (10 ^ 18)) = PInf"
  using round64_overflow by simp

lemma lower_wei: "lower ''wei'' = ''wei''" by code_simp


text \<open>
  C1. For every float amount and every two units whose lower-cased forms are in the unit
  table and of the same family, \<open>convert_crypto_units\<close> returns Success: the output
  amount is the float product of the amount and the factor of the source unit, divided
  (as floats) by the factor of the target unit; the input amount and unit and the output
  unit are those given, and the family is the one of the units. The factors are those of
  the table. When a lower-cased unit is not in the table, the result is Error with the
  list of all twelve units. One \<open>eth\<close> is \<open>1e9\<close> \<open>gwei\<close>, and \<open>21000\<close> \<open>gwei\<close> are the float
  nearest to \<open>21 / 1000000\<close>, which is the float the literal \<open>0.000021\<close> denotes.
\<close>

theorem convert_same_family:
  "(\<forall>f t. map_of conversions (lower from_unit) = Some f \<and>
          map_of conversions (lower to_unit) = Some t \<and>
          get_chain (lower from_unit) = get_chain (lower to_unit) \<longrightarrow>
      (\<exists>result family. fdiv (fmul amount f) t = Inr result \<and>
         get_chain (lower from_unit) = Some family \<and>
         convert_crypto_units amount from_unit to_unit =
           Inr (Success \<lparr>cv_input = (amount, from_unit), cv_output = (result, to_unit),
                  cv_blockchain = Some family\<rparr>))) \<and>
   (map_of conversions (lower from_unit) = None \<or> map_of conversions (lower to_unit) = None \<longrightarrow>
      convert_crypto_units amount from_unit to_unit =
        Inr (Error ''Invalid unit''
          (Some [''wei'', ''gwei'', ''eth'', ''ether'', ''satoshi'', ''sat'', ''btc'', ''bitcoin'',
                 ''lamport'', ''lamports'', ''sol'', ''solana'']))) \<and>
   conversions =
     [(''wei'', Fin 1), (''gwei'', Fin (10 ^ 9)), (''eth'', Fin (10 ^ 18)), (''ether'', Fin (10 ^ 18)),
      (''satoshi'', Fin 1), (''sat'', Fin 1), (''btc'', Fin (10 ^ 8)), (''bitcoin'', Fin (10 ^ 8)),
      (''lamport'', Fin 1), (''lamports'', Fin 1), (''sol'', Fin (10 ^ 9)), (''solana'', Fin (10 ^ 9))] \<and>
   convert_crypto_units (Fin 1) ''eth'' ''gwei'' =
     Inr (Success \<lparr>cv_input = (Fin 1, ''eth''), cv_output = (Fin (10 ^ 9), ''gwei''),
            cv_blockchain = Some ''ethereum''\<rparr>) \<and>
   convert_crypto_units (Fin 21000) ''gwei'' ''eth'' =
     Inr (Success \<lparr>cv_input = (Fin 21000, ''gwei''), cv_output = (round64 (21 / 1000000), ''eth''),
            cv_blockchain = Some ''ethereum''\<rparr>)"
proof (intro conjI allI impI)
  fix f t
  assume h: "map_of conversions (lower from_unit) = Some f \<and>
          map_of conversions (lower to_unit) = Some t \<and>
          get_chain (lower from_unit) = get_chain (lower to_unit)"
  then have ft: "map_of conversions (lower from_unit) = Some f"
    "map_of conversions (lower to_unit) = Some t"
    and same: "get_chain (lower from_unit) = get_chain (lower to_unit)" by auto
  from fdiv_factor [OF ft(2)] obtain result where r: "fdiv (fmul amount f) t = Inr result" by blast
  from ft(1) have "lower from_unit \<in> set (keys conversions)" by (simp add: in_keys_iff)
  from get_chain_known [OF this] obtain family where fam: "get_chain (lower from_unit) = Some family"
    by auto
  from convert_success [OF ft same r] fam r
  show "\<exists>result family. fdiv (fmul amount f) t = Inr result \<and>
         get_chain (lower from_unit) = Some family \<and>
         convert_crypto_units amount from_unit to_unit =
           Inr (Success \<lparr>cv_input = (amount, from_unit), cv_output = (result, to_unit),
                  cv_blockchain = Some family\<rparr>)"
    by simp
next
  assume "map_of conversions (lower from_unit) = None \<or> map_of conversions (lower to_unit) = None"
  then have "lower from_unit \<notin> set (keys conversions) \<or> lower to_unit \<notin> set (keys conversions)"
    by (simp add: in_keys_iff)
  from convert_invalid_unit [OF this, of amount]
  show "convert_crypto_units amount from_unit to_unit =
        Inr (Error ''Invalid unit''
          (Some [''wei'', ''gwei'', ''eth'', ''ether'', ''satoshi'', ''sat'', ''btc'', ''bitcoin'',
                 ''lamport'', ''lamports'', ''sol'', ''solana'']))"
    by (simp add: keys_conversions)
next
  show "conversions =
     [(''wei'', Fin 1), (''gwei'', Fin (10 ^ 9)), (''eth'', Fin (10 ^ 18)), (''ether'', Fin (10 ^ 18)),
      (''satoshi'', Fin 1), (''sat'', Fin 1), (''btc'', Fin (10 ^ 8)), (''bitcoin'', Fin (10 ^ 8)),
      (''lamport'', Fin 1), (''lamports'', Fin 1), (''sol'', Fin (10 ^ 9)), (''solana'', Fin (10 ^ 9))]"
    by (simp add: conversions_def)
next
  have f: "map_of conversions (lower ''eth'') = Some (Fin (10 ^ 18))"
    by (simp add: lower_eth conversions_def)
  have t: "map_of conversions (lower ''gwei'') = Some (Fin (10 ^ 9))"
    by (simp add: lower_gwei conversions_def)
  have c: "get_chain (lower ''eth'') = get_chain (lower ''gwei'')"
    by (simp add: lower_eth lower_gwei get_chain_def eth_units_def)
  have e: "get_chain (lower ''eth'') = Some ''ethereum''"
    by (simp add: lower_eth get_chain_def eth_units_def)
  have r: "fdiv (fmul (Fin 1) (Fin (10 ^ 18))) (Fin (10 ^ 9)) = Inr (Fin (10 ^ 9))"
    by (simp only: fmul_1_1e18 fdiv_1e18_1e9)
  from convert_success [OF f t c r] e
  show "convert_crypto_units (Fin 1) ''eth'' ''gwei'' =
     Inr (Success \<lparr>cv_input = (Fin 1, ''eth''), cv_output = (Fin (10 ^ 9), ''gwei''),
            cv_blockchain = Some ''ethereum''\<rparr>)"
    by simp
next
  have f: "map_of conversions (lower ''gwei'') = Some (Fin (10 ^ 9))"
    by (simp add: lower_gwei conversions_def)
  have t: "map_of conversions (lower ''eth'') = Some (Fin (10 ^ 18))"
    by (simp add: lower_eth conversions_def)
  have c: "get_chain (lower ''gwei'') = get_chain (lower ''eth'')"
    by (simp add: lower_eth lower_gwei get_chain_def eth_units_def)
  have e: "get_chain (lower ''gwei'') = Some ''ethereum''"
    by (simp add: lower_gwei get_chain_def eth_units_def)
  have r: "fdiv (fmul (Fin 21000) (Fin (10 ^ 9))) (Fin (10 ^ 18)) = Inr (round64 (21 / 1000000))"
    by (simp only: fmul_21000_1e9 fdiv_21e12_1e18)
  from convert_success [OF f t c r] e
  show "convert_crypto_units (Fin 21000) ''gwei'' ''eth'' =
     Inr (Success \<lparr>cv_input = (Fin 21000, ''gwei''), cv_output = (round64 (21 / 1000000), ''eth''),
            cv_blockchain = Some ''ethereum''\<rparr>)"
    by simp
qed

theorem convert_same_family_witness:
  "convert_crypto_units (Fin 5) ''BTC'' ''btc'' =
     Inr (Success \<lparr>cv_input = (Fin 5, ''BTC''), cv_output = (Fin 5, ''btc''),
            cv_blockchain = Some ''bitcoin''\<rparr>) \<and>
   convert_crypto_units (Fin 5) ''btc'' ''doge'' =
     Inr (Error ''Invalid unit''
       (Some [''wei'', ''gwei'', ''eth'', ''ether'', ''satoshi'', ''sat'', ''btc'', ''bitcoin'',
              ''lamport'', ''lamports'', ''sol'', ''solana'']))"
proof -
  have lb: "lower ''BTC'' = ''btc''" by code_simp
  have ld: "lower ''doge'' = ''doge''" by code_simp
  have f: "map_of conversions ''btc'' = Some (Fin (10 ^ 8))" by (simp add: conversions_def)
  have n: "map_of conversions ''doge'' = None" by (simp add: conversions_def)
  have c: "get_chain ''btc'' = Some ''bitcoin''"
    by (simp add: get_chain_def eth_units_def btc_units_def)
  have m: "fmul (Fin 5) (Fin (10 ^ 8)) = Fin 500000000"
    by (simp, subst round64_at [where L = 28]) simp_all
  have d: "fdiv (Fin 500000000) (Fin (10 ^ 8)) = Inr (Fin 5)"
    by (simp, subst round64_at [where L = 2]) simp_all
  from convert_same_family [of "''BTC''" "''btc''" "Fin 5"] f c m d
  have 1: "convert_crypto_units (Fin 5) ''BTC'' ''btc'' =
     Inr (Success \<lparr>cv_input = (Fin 5, ''BTC''), cv_output = (Fin 5, ''btc''),
            cv_blockchain = Some ''bitcoin''\<rparr>)"
    by (auto simp: lb lower_btc)
  from convert_same_family [of "''btc''" "''doge''" "Fin 5"] n
  have 2: "convert_crypto_units (Fin 5) ''btc'' ''doge'' =
     Inr (Error ''Invalid unit''
       (Some [''wei'', ''gwei'', ''eth'', ''ether'', ''satoshi'', ''sat'', ''btc'', ''bitcoin'',
              ''lamport'', ''lamports'', ''sol'', ''solana'']))"
    by (simp add: ld)
  from 1 2 show ?thesis ..
qed

lemma fmul_zero: "fmul (Fin 0) (Fin f) = Fin 0" by simp
lemma fdiv_zero: "f \<noteq> 0 \<Longrightarrow> fdiv (Fin 0) (Fin f) = Inr (Fin 0)" by simp

lemma round_trip_floats:
  fixes a f1 f2 :: rat
  assumes a: "a = 0 \<or> (1 / 10 ^ 270 \<le> \<bar>a\<bar> \<and> \<bar>a\<bar> \<le> 10 ^ 270)"
    and f1: "1 \<le> f1" "f1 \<le> 2 ^ 60" and f2: "1 \<le> f2" "f2 \<le> 2 ^ 60"
  shows "\<exists>o1 r. fdiv (fmul (Fin a) (Fin f1)) (Fin f2) = Inr (Fin o1) \<and>
           fdiv (fmul (Fin o1) (Fin f2)) (Fin f1) = Inr (Fin r) \<and>
           \<bar>r - a\<bar> \<le> \<bar>a\<bar> / 2 ^ 50"
proof (cases "a = 0")
  case True
  have "f1 \<noteq> 0" "f2 \<noteq> 0" using f1 f2 by auto
  with True show ?thesis by simp
next
  case False
  with a have r: "1 / 10 ^ 270 \<le> \<bar>a\<bar>" "\<bar>a\<bar> \<le> 10 ^ 270" by auto
  have "(2::rat) powi (- 900) \<le> 1 / 10 ^ 270" by simp
  with r(1) have lo: "2 powi (- 900) \<le> \<bar>a\<bar>" by linarith
  have "(10::rat) ^ 270 \<le> 2 ^ 900" by simp
  with r(2) have hi: "\<bar>a\<bar> \<le> 2 ^ 900" by linarith
  from round_trip_values [OF lo hi f1 f2]
  obtain p1 o1 p2 r where v: "round64 (a * f1) = Fin p1" "round64 (p1 / f2) = Fin o1"
    "round64 (o1 * f2) = Fin p2" "round64 (p2 / f1) = Fin r" "\<bar>r - a\<bar> \<le> \<bar>a\<bar> / 2 ^ 50"
    by blast
  have nz: "f1 \<noteq> 0" "f2 \<noteq> 0" using f1 f2 by auto
  have "fdiv (fmul (Fin a) (Fin f1)) (Fin f2) = Inr (Fin o1)"
    using v(1,2) nz by simp
  moreover have "fdiv (fmul (Fin o1) (Fin f2)) (Fin f1) = Inr (Fin r)"
    using v(3,4) nz by simp
  ultimately show ?thesis using v(5) by blast
qed


text \<open>
  C4, as amended. For every two known units of one family and every finite amount \<open>a\<close>
  that is zero or of magnitude between \<open>1e-270\<close> and \<open>1e270\<close>, converting \<open>a\<close> from the
  first unit to the second and the output back returns a finite amount \<open>r\<close> with
  \<open>|r - a| \<le> |a| / 2 ^ 50\<close>.
\<close>

theorem convert_round_trip:
  assumes k1: "lower u1 \<in> set (keys conversions)" and k2: "lower u2 \<in> set (keys conversions)"
    and same: "get_chain (lower u1) = get_chain (lower u2)"
    and a: "a = 0 \<or> (1 / 10 ^ 270 \<le> \<bar>a\<bar> \<and> \<bar>a\<bar> \<le> 10 ^ 270)"
  shows "\<exists>o1 r family.
           convert_crypto_units (Fin a) u1 u2 =
             Inr (Success \<lparr>cv_input = (Fin a, u1), cv_output = (Fin o1, u2),
                    cv_blockchain = family\<rparr>) \<and>
           convert_crypto_units (Fin o1) u2 u1 =
             Inr (Success \<lparr>cv_input = (Fin o1, u2), cv_output = (Fin r, u1),
                    cv_blockchain = family\<rparr>) \<and>
           \<bar>r - a\<bar> \<le> \<bar>a\<bar> / 2 ^ 50"
proof -
  from k1 obtain t1 where t1: "map_of conversions (lower u1) = Some t1" by (auto simp: in_keys_iff)
  from k2 obtain t2 where t2: "map_of conversions (lower u2) = Some t2" by (auto simp: in_keys_iff)
  from conversions_factor [OF t1] obtain f1 where f1: "t1 = Fin f1" "1 \<le> f1" "f1 \<le> 2 ^ 60" by blast
  from conversions_factor [OF t2] obtain f2 where f2: "t2 = Fin f2" "1 \<le> f2" "f2 \<le> 2 ^ 60" by blast
  from round_trip_floats [OF a f1(2,3) f2(2,3)]
  obtain o1 r where v: "fdiv (fmul (Fin a) (Fin f1)) (Fin f2) = Inr (Fin o1)"
    "fdiv (fmul (Fin o1) (Fin f2)) (Fin f1) = Inr (Fin r)" "\<bar>r - a\<bar> \<le> \<bar>a\<bar> / 2 ^ 50"
    by (elim exE conjE)
  have "convert_crypto_units (Fin a) u1 u2 =
          Inr (Success \<lparr>cv_input = (Fin a, u1), cv_output = (Fin o1, u2),
                 cv_blockchain = get_chain (lower u1)\<rparr>)"
    using convert_success [OF t1 t2 same, of "Fin a" "Fin o1"] v(1) f1(1) f2(1) by simp
  moreover have "convert_crypto_units (Fin o1) u2 u1 =
          Inr (Success \<lparr>cv_input = (Fin o1, u2), cv_output = (Fin r, u1),
                 cv_blockchain = get_chain (lower u1)\<rparr>)"
    using convert_success [OF t2 t1 same [symmetric], of "Fin o1" "Fin r"] v(2) f1(1) f2(1) same
    by simp
  ultimately show ?thesis using v(3) by (intro exI conjI)
qed

theorem convert_round_trip_witness:
  "\<exists>o1 r family.
     convert_crypto_units (Fin (3 / 2)) ''ETH'' ''gwei'' =
       Inr (Success \<lparr>cv_input = (Fin (3 / 2), ''ETH''), cv_output = (Fin o1, ''gwei''),
              cv_blockchain = family\<rparr>) \<and>
     convert_crypto_units (Fin o1) ''gwei'' ''ETH'' =
       Inr (Success \<lparr>cv_input = (Fin o1, ''gwei''), cv_output = (Fin r, ''ETH''),
              cv_blockchain = family\<rparr>) \<and>
     \<bar>r - 3 / 2\<bar> \<le> \<bar>3 / 2\<bar> / 2 ^ 50"
proof -
  have k1: "lower ''ETH'' \<in> set (keys conversions)" by (simp add: lower_ETH keys_conversions)
  have k2: "lower ''gwei'' \<in> set (keys conversions)" by (simp add: lower_gwei keys_conversions)
  have same: "get_chain (lower ''ETH'') = get_chain (lower ''gwei'')"
    by (simp add: lower_ETH lower_gwei get_chain_def eth_units_def)
  have a: "(3 / 2 :: rat) = 0 \<or> (1 / 10 ^ 270 \<le> \<bar>3 / 2 :: rat\<bar> \<and> \<bar>3 / 2 :: rat\<bar> \<le> 10 ^ 270)"
    by simp
  from convert_round_trip [OF k1 k2 same a] show ?thesis .
qed


text \<open>
  C4 as stated fails: the product \<open>2 ^ 1000 * 1e18\<close> overflows, so \<open>2 ^ 1000\<close> \<open>eth\<close> are
  infinitely many \<open>wei\<close>, and converting back returns infinity, not an amount near
  \<open>2 ^ 1000\<close>.
\<close>

theorem round_trip_overflow:
  "convert_crypto_units (Fin (2 ^ 1000)) ''eth'' ''wei'' =
     Inr (Success \<lparr>cv_input = (Fin (2 ^ 1000), ''eth''), cv_output = (PInf, ''wei''),
            cv_blockchain = Some ''ethereum''\<rparr>) \<and>
   convert_crypto_units PInf ''wei'' ''eth'' =
     Inr (Success \<lparr>cv_input = (PInf, ''wei''), cv_output = (PInf, ''eth''),
            cv_blockchain = Some ''ethereum''\<rparr>)"
proof
  have e: "map_of conversions (lower ''eth'') = Some (Fin (10 ^ 18))"
    by (simp add: lower_eth conversions_def)
  have w: "map_of conversions (lower ''wei'') = Some (Fin 1)"
    by (simp add: lower_wei conversions_def)
  have c: "get_chain (lower ''eth'') = get_chain (lower ''wei'')"
    by (simp add: lower_eth lower_wei get_chain_def eth_units_def)
  have fe: "get_chain (lower ''eth'') = Some ''ethereum''"
    by (simp add: lower_eth get_chain_def eth_units_def)
  have fw: "get_chain (lower ''wei'') = Some ''ethereum''"
    by (simp add: lower_wei get_chain_def eth_units_def)
  have 1: "fdiv (fmul (Fin (2 ^ 1000)) (Fin (10 ^ 18))) (Fin 1) = Inr PInf"
    by (simp only: fmul_overflow) simp
  have 2: "fdiv (fmul PInf (Fin 1)) (Fin (10 ^ 18)) = Inr PInf" by simp
  from convert_success [OF e w c 1] fe
  show "convert_crypto_units (Fin (2 ^ 1000)) ''eth'' ''wei'' =
     Inr (Success \<lparr>cv_input = (Fin (2 ^ 1000), ''eth''), cv_output = (PInf, ''wei''),
            cv_blockchain = Some ''ethereum''\<rparr>)"
    by simp
  from convert_success [OF w e c [symmetric] 2] fw
  show "convert_crypto_units PInf ''wei'' ''eth'' =
     Inr (Success \<lparr>cv_input = (PInf, ''wei''), cv_output = (PInf, ''eth''),
            cv_blockchain = Some ''ethereum''\<rparr>)"
    by simp
qed

end
